theory Spec2Isabelle
  imports Complex_Main "HOL-Library.Word"
begin

unbundle bit_operations_syntax

section \<open>Exceptions\<close>

text \<open>
  The exceptions that the models of \<^verbatim>\<open>classquiz/db/models.py\<close> can raise.
  \<open>ValueError\<close> carries the message of the \<^verbatim>\<open>raise\<close> statement.
  \<open>ValidationError\<close> is what a model constructor raises after it has gone through
  all fields; it carries the names of the fields that failed. A validator that raises
  \<open>ValueError\<close> or \<open>TypeError\<close> fails its field; any other exception
  (\<open>IndexError\<close>, \<open>KeyError\<close>) is not caught and is what the constructor raises.
\<close>

datatype error =
    ValueError string
  | TypeError
  | IndexError
  | KeyError
  | ValidationError "string list"

section \<open>Answer keys and question types\<close>

record ABCDQuizAnswer =
  right :: bool
  answer :: string
  color :: "string option"

text \<open>The fields \<^verbatim>\<open>min\<close> and \<^verbatim>\<open>max\<close> carry a suffix: the names are taken in HOL.\<close>

record RangeQuizAnswer =
  min_f :: int
  max_f :: int
  min_correct :: int
  max_correct :: int

record VotingQuizAnswer =
  answer :: string
  image_f :: "string option"
  color :: "string option"

datatype QuizQuestionType = ABCD | RANGE | VOTING | SLIDE | TEXT | ORDER | CHECK

record TextQuizAnswer =
  answer :: string
  case_sensitive :: bool

subsection \<open>Run-time values of the \<^verbatim>\<open>answers\<close> field\<close>

text \<open>
  The field is annotated
  \<^verbatim>\<open>list[ABCDQuizAnswer] | RangeQuizAnswer | list[TextQuizAnswer] | list[VotingQuizAnswer] | str\<close>.
  Python values are dynamically typed, so a list is a list of items each of which
  carries its own class; \<open>conforms_to_annotation\<close> below says that a value is an
  instance of one member of the union.
\<close>

datatype answer_item =
    Item_ABCD ABCDQuizAnswer
  | Item_Text TextQuizAnswer
  | Item_Voting VotingQuizAnswer

datatype answers_value =
    Answers_list "answer_item list"
  | Answers_range RangeQuizAnswer
  | Answers_str string

text \<open>What \<^verbatim>\<open>v[0]\<close> can return: an item of a list, or a one-character string.\<close>

datatype elem = Elem_item answer_item | Elem_str string

datatype py_type =
    T_ABCDQuizAnswer
  | T_RangeQuizAnswer
  | T_VotingQuizAnswer
  | T_TextQuizAnswer
  | T_str
  | T_list

fun type_of_item :: "answer_item \<Rightarrow> py_type" where
  "type_of_item (Item_ABCD _) = T_ABCDQuizAnswer"
| "type_of_item (Item_Text _) = T_TextQuizAnswer"
| "type_of_item (Item_Voting _) = T_VotingQuizAnswer"

fun type_of_elem :: "elem \<Rightarrow> py_type" where
  "type_of_elem (Elem_item x) = type_of_item x"
| "type_of_elem (Elem_str _) = T_str"

fun type_of_value :: "answers_value \<Rightarrow> py_type" where
  "type_of_value (Answers_list _) = T_list"
| "type_of_value (Answers_range _) = T_RangeQuizAnswer"
| "type_of_value (Answers_str _) = T_str"

text \<open>
  \<^verbatim>\<open>v[0]\<close>: \<open>IndexError\<close> on an empty list or an empty string, \<open>TypeError\<close> on a
  \<open>RangeQuizAnswer\<close> (a model instance is not subscriptable).
\<close>

fun getitem0 :: "answers_value \<Rightarrow> error + elem" where
  "getitem0 (Answers_list []) = Inl IndexError"
| "getitem0 (Answers_list (x # _)) = Inr (Elem_item x)"
| "getitem0 (Answers_range _) = Inl TypeError"
| "getitem0 (Answers_str []) = Inl IndexError"
| "getitem0 (Answers_str (c # _)) = Inr (Elem_str [c])"

text \<open>\<^verbatim>\<open>type(v[0]) != T\<close>\<close>

definition type_v0_ne :: "answers_value \<Rightarrow> py_type \<Rightarrow> error + bool" where
  "type_v0_ne v T = (case getitem0 v of Inl e \<Rightarrow> Inl e | Inr x \<Rightarrow> Inr (type_of_elem x \<noteq> T))"

text \<open>\<^verbatim>\<open>a and b\<close>: the right operand is evaluated only when the left one is true.\<close>

definition py_and :: "bool \<Rightarrow> error + bool \<Rightarrow> error + bool" where
  "py_and a b = (if a then b else Inr False)"

text \<open>\<^verbatim>\<open>if cond: raise e\<close> followed by the rest of the body.\<close>

definition raise_if :: "error + bool \<Rightarrow> error \<Rightarrow> error + 'a \<Rightarrow> error + 'a" where
  "raise_if cond e rest =
     (case cond of Inl x \<Rightarrow> Inl x | Inr b \<Rightarrow> if b then Inl e else rest)"

subsection \<open>The validator of \<^verbatim>\<open>QuizQuestion.answers\<close>\<close>

text \<open>
  \<open>values\<close> is the dictionary of the fields validated before \<^verbatim>\<open>answers\<close>; the
  validator reads the key \<^verbatim>\<open>"type"\<close> only, whose value is \<^verbatim>\<open>None\<close> or a member of
  the enumeration. A missing key raises \<open>KeyError\<close>.
\<close>

type_synonym values_dict = "string \<rightharpoonup> QuizQuestionType option"

definition answers_not_none_if_abcd_type ::
  "answers_value \<Rightarrow> values_dict \<Rightarrow> error + answers_value" where
  "answers_not_none_if_abcd_type v values =
     (case values ''type'' of
        None \<Rightarrow> Inl KeyError
      | Some ty \<Rightarrow>
          raise_if (py_and (ty = Some ABCD) (type_v0_ne v T_ABCDQuizAnswer))
            (ValueError ''Answers can't be none if type is ABCD'')
         (raise_if (py_and (ty = Some RANGE) (Inr (type_of_value v \<noteq> T_RangeQuizAnswer)))
            (ValueError ''Answer must be from type RangeQuizAnswer if type is RANGE'')
         (raise_if (py_and (ty = Some VOTING) (type_v0_ne v T_VotingQuizAnswer))
            (ValueError ''Answer must be from type VotingQuizAnswer if type is VOTING'')
         (raise_if (py_and (ty = Some TEXT) (type_v0_ne v T_TextQuizAnswer))
            (ValueError ''Answer must be from type TextQuizAnswer if type is TEXT'')
         (raise_if (py_and (ty = Some ORDER) (type_v0_ne v T_VotingQuizAnswer))
            (ValueError ''Answer must be from type VotingQuizAnswer if type is ORDER'')
         (raise_if (py_and (ty = Some SLIDE) (type_v0_ne v T_str))
            (ValueError ''Answer must be from type SlideElement if type is SLIDE'')
         (raise_if (py_and (ty = Some CHECK) (type_v0_ne v T_ABCDQuizAnswer))
            (ValueError ''Answers can't be none if type is CHECK'')
         (Inr v))))))))"

subsection \<open>The model \<^verbatim>\<open>QuizQuestion\<close>\<close>

record QuizQuestion =
  question :: string
  time :: string
  type :: "QuizQuestionType option"
  answers :: answers_value
  image_f :: "string option"

text \<open>
  The keyword arguments of the constructor. \<open>None\<close> is an argument that was not
  given; for \<^verbatim>\<open>type\<close>, \<open>Some None\<close> is \<^verbatim>\<open>type=None\<close> given explicitly. The
  argument \<^verbatim>\<open>answers\<close> is the value as the caller gives it (\<open>'raw\<close>), before the
  library has validated it against the annotation of the field.
\<close>

record 'raw QuizQuestion_kwargs =
  kw_question :: "string option"
  kw_time :: "string option"
  kw_type :: "QuizQuestionType option option"
  kw_answers :: "'raw option"
  kw_image :: "string option"

definition is_ABCD :: "answer_item \<Rightarrow> bool" where
  "is_ABCD x = (type_of_item x = T_ABCDQuizAnswer)"

definition is_Text :: "answer_item \<Rightarrow> bool" where
  "is_Text x = (type_of_item x = T_TextQuizAnswer)"

definition is_Voting :: "answer_item \<Rightarrow> bool" where
  "is_Voting x = (type_of_item x = T_VotingQuizAnswer)"

text \<open>
  A value is an instance of the annotation of \<^verbatim>\<open>answers\<close> when it is an instance of
  one member of the union: a list all of whose items are of one of the three answer
  classes, a \<open>RangeQuizAnswer\<close>, or a string. This is what the validation of a field
  by the library guarantees of the value it hands to the validators of the class; it
  is not a check on the caller's argument.
\<close>

fun conforms_to_annotation :: "answers_value \<Rightarrow> bool" where
  "conforms_to_annotation (Answers_list xs) =
     (list_all is_ABCD xs \<or> list_all is_Text xs \<or> list_all is_Voting xs)"
| "conforms_to_annotation (Answers_range _) = True"
| "conforms_to_annotation (Answers_str _) = True"

text \<open>
  The library's validation of an argument against the annotation is not code of
  \<^verbatim>\<open>models.py\<close>. The constructor takes it as the parameter \<open>validate_field\<close>: it
  returns the coerced value, or \<open>None\<close> when no member of the union accepts the
  argument. \<open>field_validation_sound\<close> is the one property of it that is used.
\<close>

definition field_validation_sound :: "('raw \<Rightarrow> answers_value option) \<Rightarrow> bool" where
  "field_validation_sound validate_field =
     (\<forall>raw v. validate_field raw = Some v \<longrightarrow> conforms_to_annotation v)"

text \<open>A field with a default: the default stands in for a missing argument.\<close>

definition with_default :: "'a \<Rightarrow> 'a option \<Rightarrow> 'a" where
  "with_default d arg = (case arg of None \<Rightarrow> d | Some x \<Rightarrow> x)"

text \<open>A required field: a missing argument fails the field.\<close>

definition required :: "string \<Rightarrow> 'a option \<Rightarrow> string list" where
  "required name arg = (case arg of None \<Rightarrow> [name] | Some _ \<Rightarrow> [])"

text \<open>
  The field \<^verbatim>\<open>answers\<close>: required; the argument is validated against the annotation,
  which coerces it; then the validator of the class runs on the coerced value, and
  what it returns is the value of the field. \<open>ValueError\<close> and \<open>TypeError\<close> of the
  validator fail the field, any other exception is not caught. The result is the list
  of failed fields and the value of the field.
\<close>

definition validate_answers ::
  "('raw \<Rightarrow> answers_value option) \<Rightarrow> 'raw option \<Rightarrow> values_dict
     \<Rightarrow> error + (string list \<times> answers_value option)" where
  "validate_answers validate_field arg values =
     (case arg of
        None \<Rightarrow> Inr ([''answers''], None)
      | Some raw \<Rightarrow>
          (case validate_field raw of
             None \<Rightarrow> Inr ([''answers''], None)
           | Some v \<Rightarrow>
               (case answers_not_none_if_abcd_type v values of
                  Inr v' \<Rightarrow> Inr ([], Some v')
                | Inl (ValueError _) \<Rightarrow> Inr ([''answers''], None)
                | Inl TypeError \<Rightarrow> Inr ([''answers''], None)
                | Inl e \<Rightarrow> Inl e)))"

text \<open>
  \<^verbatim>\<open>QuizQuestion(...)\<close>: the fields are validated in the order of their
  declaration; \<^verbatim>\<open>type\<close> defaults to \<^verbatim>\<open>QuizQuestionType.ABCD\<close> when it is not given
  and stays \<^verbatim>\<open>None\<close> when \<^verbatim>\<open>None\<close> is given.
\<close>

definition QuizQuestion_init ::
  "('raw \<Rightarrow> answers_value option) \<Rightarrow> 'raw QuizQuestion_kwargs \<Rightarrow> error + QuizQuestion" where
  "QuizQuestion_init validate_field kw =
     (let ty = with_default (Some ABCD) (kw_type kw);
          values = [''type'' \<mapsto> ty]
      in case validate_answers validate_field (kw_answers kw) values of
           Inl e \<Rightarrow> Inl e
         | Inr (errs_answers, v) \<Rightarrow>
             (let errs = required ''question'' (kw_question kw)
                       @ required ''time'' (kw_time kw) @ errs_answers
              in if errs \<noteq> [] then Inl (ValidationError errs)
                 else Inr \<lparr>question = the (kw_question kw), time = the (kw_time kw),
                           type = ty, answers = the v,
                           image_f = kw_image kw\<rparr>))"

text \<open>
  The shapes of the answer key, per type tag: a list of \<open>ABCDQuizAnswer\<close> for ABCD and
  CHECK, a \<open>RangeQuizAnswer\<close> for RANGE, a list of \<open>VotingQuizAnswer\<close> for VOTING and
  ORDER, a list of \<open>TextQuizAnswer\<close> for TEXT, a string for SLIDE.
\<close>

definition is_list_of :: "(answer_item \<Rightarrow> bool) \<Rightarrow> answers_value \<Rightarrow> bool" where
  "is_list_of P v = (case v of Answers_list xs \<Rightarrow> list_all P xs | _ \<Rightarrow> False)"

fun shape_matches :: "QuizQuestionType \<Rightarrow> answers_value \<Rightarrow> bool" where
  "shape_matches ABCD v = is_list_of is_ABCD v"
| "shape_matches CHECK v = is_list_of is_ABCD v"
| "shape_matches RANGE v = (type_of_value v = T_RangeQuizAnswer)"
| "shape_matches VOTING v = is_list_of is_Voting v"
| "shape_matches ORDER v = is_list_of is_Voting v"
| "shape_matches TEXT v = is_list_of is_Text v"
| "shape_matches SLIDE v = (type_of_value v = T_str)"

subsection \<open>The union of the annotation, tried in order\<close>

text \<open>
  An instance of \<open>validate_field\<close>: the library tries the members of the union
  \<^verbatim>\<open>list[ABCDQuizAnswer] | RangeQuizAnswer | list[TextQuizAnswer] | list[VotingQuizAnswer] | str\<close>
  from left to right and returns what the first member that accepts the argument
  makes of it. An item of a list is a dictionary or a model instance; an instance of
  another class is read through its dictionary, and keys that the class does not
  declare are ignored. So an item is represented by the keys it carries.
  The coercion of scalars (a number given for a string, and so on) is left out: a key
  that is present carries a value of the type of its field.
\<close>

record raw_item =
  raw_right :: "bool option"
  raw_answer :: "string option"
  raw_color :: "string option"
  raw_image :: "string option"
  raw_case_sensitive :: "bool option"

record raw_range =
  raw_min :: "int option"
  raw_max :: "int option"
  raw_min_correct :: "int option"
  raw_max_correct :: "int option"

datatype raw_answers =
    Raw_list "raw_item list"
  | Raw_dict raw_range
  | Raw_str string

text \<open>
  The class \<open>ABCDQuizAnswer\<close> (lines 98 to 101) applied to the keys of an item: it
  requires \<^verbatim>\<open>right\<close> and \<^verbatim>\<open>answer\<close>; \<^verbatim>\<open>color\<close> may be missing.
\<close>

definition to_ABCD :: "raw_item \<Rightarrow> ABCDQuizAnswer option" where
  "to_ABCD it =
     (case (raw_right it, raw_answer it) of
        (Some r, Some a) \<Rightarrow>
          Some \<lparr>ABCDQuizAnswer.right = r, ABCDQuizAnswer.answer = a,
                ABCDQuizAnswer.color = raw_color it\<rparr>
      | _ \<Rightarrow> None)"

text \<open>
  The class \<open>TextQuizAnswer\<close> (lines 127 to 129): it requires \<^verbatim>\<open>answer\<close> and
  \<^verbatim>\<open>case_sensitive\<close>.
\<close>

definition to_Text :: "raw_item \<Rightarrow> TextQuizAnswer option" where
  "to_Text it =
     (case (raw_answer it, raw_case_sensitive it) of
        (Some a, Some c) \<Rightarrow>
          Some \<lparr>TextQuizAnswer.answer = a, TextQuizAnswer.case_sensitive = c\<rparr>
      | _ \<Rightarrow> None)"

text \<open>
  The class \<open>VotingQuizAnswer\<close> (lines 111 to 114): it requires \<^verbatim>\<open>answer\<close>;
  \<^verbatim>\<open>image\<close> and \<^verbatim>\<open>color\<close> may be missing.
\<close>

definition to_Voting :: "raw_item \<Rightarrow> VotingQuizAnswer option" where
  "to_Voting it =
     (case raw_answer it of
        Some a \<Rightarrow>
          Some \<lparr>VotingQuizAnswer.answer = a, VotingQuizAnswer.image_f = raw_image it,
                VotingQuizAnswer.color = raw_color it\<rparr>
      | None \<Rightarrow> None)"

text \<open>The class \<open>RangeQuizAnswer\<close> (lines 104 to 108): it requires its four fields.\<close>

definition to_Range :: "raw_range \<Rightarrow> RangeQuizAnswer option" where
  "to_Range d =
     (case (raw_min d, raw_max d, raw_min_correct d, raw_max_correct d) of
        (Some a, Some b, Some c, Some e) \<Rightarrow>
          Some \<lparr>min_f = a, max_f = b, min_correct = c, max_correct = e\<rparr>
      | _ \<Rightarrow> None)"

text \<open>
  A member \<^verbatim>\<open>list[C]\<close> of the union accepts a list when the class \<^verbatim>\<open>C\<close> accepts
  every item, and returns the list of the instances.
\<close>

definition to_list :: "(raw_item \<Rightarrow> 'a option) \<Rightarrow> raw_item list \<Rightarrow> 'a list option" where
  "to_list f xs = (if list_all (\<lambda>x. f x \<noteq> None) xs then Some (map (\<lambda>x. the (f x)) xs) else None)"

text \<open>
  The members of the union in the order of the annotation (line 136). A list is
  offered to the three list members, a dictionary to \<open>RangeQuizAnswer\<close>, a string is
  a \<^verbatim>\<open>str\<close>; no other member accepts them.
\<close>

definition validate_union :: "raw_answers \<Rightarrow> answers_value option" where
  "validate_union raw =
     (case raw of
        Raw_list xs \<Rightarrow>
          (case to_list to_ABCD xs of
             Some ys \<Rightarrow> Some (Answers_list (map Item_ABCD ys))
           | None \<Rightarrow>
               (case to_list to_Text xs of
                  Some ys \<Rightarrow> Some (Answers_list (map Item_Text ys))
                | None \<Rightarrow>
                    (case to_list to_Voting xs of
                       Some ys \<Rightarrow> Some (Answers_list (map Item_Voting ys))
                     | None \<Rightarrow> None)))
      | Raw_dict d \<Rightarrow> map_option Answers_range (to_Range d)
      | Raw_str s \<Rightarrow> Some (Answers_str s))"

section \<open>The game in play\<close>

type_synonym uuid = "128 word"

text \<open>A \<^verbatim>\<open>datetime\<close>, as microseconds since the epoch.\<close>

type_synonym datetime = nat

record PlayGame =
  quiz_id :: "uuid + string"
  description :: string
  user_id :: uuid
  title :: string
  questions :: "QuizQuestion list"
  game_id :: uuid
  game_pin :: string
  started :: bool
  captcha_enabled :: bool
  cover_image :: "string option"
  game_mode :: "string option"
  current_question :: int
  background_color :: "string option"
  background_image :: "string option"
  custom_field :: "string option"
  question_show :: bool

record PlayGame_kwargs =
  pg_quiz_id :: "(uuid + string) option"
  pg_description :: "string option"
  pg_user_id :: "uuid option"
  pg_title :: "string option"
  pg_questions :: "QuizQuestion list option"
  pg_game_id :: "uuid option"
  pg_game_pin :: "string option"
  pg_started :: "bool option"
  pg_captcha_enabled :: "bool option"
  pg_cover_image :: "string option"
  pg_game_mode :: "string option"
  pg_current_question :: "int option"
  pg_background_color :: "string option"
  pg_background_image :: "string option"
  pg_custom_field :: "string option"
  pg_question_show :: "bool option"

text \<open>
  \<^verbatim>\<open>PlayGame(...)\<close>. The fields without a default that are not annotated
  \<^verbatim>\<open>| None\<close> are required; \<^verbatim>\<open>started\<close>, \<^verbatim>\<open>captcha_enabled\<close> and \<^verbatim>\<open>question_show\<close>
  default to \<^verbatim>\<open>False\<close>, \<^verbatim>\<open>current_question\<close> to \<^verbatim>\<open>-1\<close>.
\<close>

definition PlayGame_init :: "PlayGame_kwargs \<Rightarrow> error + PlayGame" where
  "PlayGame_init kw =
     (let errs = required ''quiz_id'' (pg_quiz_id kw)
               @ required ''description'' (pg_description kw)
               @ required ''user_id'' (pg_user_id kw)
               @ required ''title'' (pg_title kw)
               @ required ''questions'' (pg_questions kw)
               @ required ''game_id'' (pg_game_id kw)
               @ required ''game_pin'' (pg_game_pin kw)
      in if errs \<noteq> [] then Inl (ValidationError errs)
         else Inr \<lparr>quiz_id = the (pg_quiz_id kw),
                   description = the (pg_description kw),
                   user_id = the (pg_user_id kw),
                   title = the (pg_title kw),
                   questions = the (pg_questions kw),
                   game_id = the (pg_game_id kw),
                   game_pin = the (pg_game_pin kw),
                   started = with_default False (pg_started kw),
                   captcha_enabled = with_default False (pg_captcha_enabled kw),
                   cover_image = pg_cover_image kw,
                   game_mode = pg_game_mode kw,
                   current_question = with_default (- 1) (pg_current_question kw),
                   background_color = pg_background_color kw,
                   background_image = pg_background_image kw,
                   custom_field = pg_custom_field kw,
                   question_show = with_default False (pg_question_show kw)\<rparr>)"

record GamePlayer =
  username :: string
  sid :: "string option"

record GameAnswer2 =
  username :: string
  right :: bool
  answer :: string

text \<open>The field \<^verbatim>\<open>id\<close> carries a suffix: the name is taken in HOL.\<close>

record GameAnswer1 =
  id_f :: int
  answers :: "GameAnswer2 list"

record GameSession =
  admin :: string
  game_id :: string
  answers :: "GameAnswer1 option list"

section \<open>Recorded answers\<close>

text \<open>
  \<^verbatim>\<open>time_taken\<close> is a \<^verbatim>\<open>float\<close>. The models store it and never compute with it, so
  a finite float is represented by the real number it denotes.
\<close>

record AnswerData =
  username :: string
  answer :: string
  right :: bool
  time_taken :: real
  score :: int

record AnswerData_kwargs =
  ad_username :: "string option"
  ad_answer :: "string option"
  ad_right :: "bool option"
  ad_time_taken :: "real option"
  ad_score :: "int option"

text \<open>\<^verbatim>\<open>AnswerData(...)\<close>: five required fields, no validator, no bound on any field.\<close>

definition AnswerData_init :: "AnswerData_kwargs \<Rightarrow> error + AnswerData" where
  "AnswerData_init kw =
     (let errs = required ''username'' (ad_username kw)
               @ required ''answer'' (ad_answer kw)
               @ required ''right'' (ad_right kw)
               @ required ''time_taken'' (ad_time_taken kw)
               @ required ''score'' (ad_score kw)
      in if errs \<noteq> [] then Inl (ValidationError errs)
         else Inr \<lparr>username = the (ad_username kw),
                   answer = the (ad_answer kw),
                   right = the (ad_right kw),
                   time_taken = the (ad_time_taken kw),
                   score = the (ad_score kw)\<rparr>)"

section \<open>Defaults evaluated when the module is loaded\<close>

text \<open>
  The field declarations \<^verbatim>\<open>default=uuid.uuid4()\<close>, \<^verbatim>\<open>default=datetime.now()\<close> and
  \<^verbatim>\<open>default=os.urandom(32).hex()\<close> are calls in a class body: Python evaluates them
  once, when the class statement runs, and hands the resulting value to the field.
  The world outside the program is a source of random bytes and a clock, each read
  as a stream.
\<close>

record world =
  urandom_stream :: "nat \<Rightarrow> 8 word"
  urandom_pos :: nat
  clock_stream :: "nat \<Rightarrow> datetime"
  clock_pos :: nat

definition os_urandom :: "nat \<Rightarrow> world \<Rightarrow> 8 word list \<times> world" where
  "os_urandom n w =
     (map (urandom_stream w) [urandom_pos w ..< urandom_pos w + n],
      w\<lparr>urandom_pos := urandom_pos w + n\<rparr>)"

definition datetime_now :: "world \<Rightarrow> datetime \<times> world" where
  "datetime_now w = (clock_stream w (clock_pos w), w\<lparr>clock_pos := clock_pos w + 1\<rparr>)"

text \<open>\<^verbatim>\<open>int.from_bytes(bs, "big")\<close> on sixteen bytes.\<close>

definition int_from_bytes :: "8 word list \<Rightarrow> 128 word" where
  "int_from_bytes bs = foldl (\<lambda>acc b. push_bit 8 acc OR ucast b) 0 bs"

text \<open>\<^verbatim>\<open>uuid.uuid4()\<close>: sixteen random bytes, with the variant and the version 4 set.\<close>

definition set_version4 :: "128 word \<Rightarrow> 128 word" where
  "set_version4 x =
     (((x AND NOT (push_bit 48 0xc000)) OR push_bit 48 0x8000)
        AND NOT (push_bit 64 0xf000)) OR push_bit 76 4"

definition uuid4 :: "world \<Rightarrow> uuid \<times> world" where
  "uuid4 w = (let (bs, w') = os_urandom 16 w in (set_version4 (int_from_bytes bs), w'))"

text \<open>\<^verbatim>\<open>bytes.hex()\<close>: two lower-case hexadecimal digits per byte.\<close>

definition hex_digit :: "nat \<Rightarrow> char" where
  "hex_digit n = ''0123456789abcdef'' ! (n mod 16)"

definition bytes_hex :: "8 word list \<Rightarrow> string" where
  "bytes_hex bs = concat (map (\<lambda>b. [hex_digit (unat b div 16), hex_digit (unat b mod 16)]) bs)"

record module_defaults =
  User_id_default :: uuid
  User_created_at_default :: datetime
  User_backup_code_default :: string
  UserSession_id_default :: uuid
  UserSession_created_at_default :: datetime
  UserSession_last_seen_default :: datetime
  Quiz_id_default :: uuid
  Quiz_created_at_default :: datetime
  Quiz_updated_at_default :: datetime
  InstanceData_instance_id_default :: uuid
  GameResults_timestamp_default :: datetime
  StorageItem_uploaded_at_default :: datetime

text \<open>
  Loading \<^verbatim>\<open>models.py\<close>: the default expressions are evaluated in the order of the
  file (lines 31, 37, 43, 84, 87, 90, 178, 182, 183, 208, 312, 386).
\<close>

definition import_models :: "world \<Rightarrow> module_defaults \<times> world" where
  "import_models w0 =
     (let (user_id, w1) = uuid4 w0;
          (user_created_at, w2) = datetime_now w1;
          (user_backup_bytes, w3) = os_urandom 32 w2;
          (session_id, w4) = uuid4 w3;
          (session_created_at, w5) = datetime_now w4;
          (session_last_seen, w6) = datetime_now w5;
          (quiz_id, w7) = uuid4 w6;
          (quiz_created_at, w8) = datetime_now w7;
          (quiz_updated_at, w9) = datetime_now w8;
          (instance_id, w10) = uuid4 w9;
          (results_timestamp, w11) = datetime_now w10;
          (storage_uploaded_at, w12) = datetime_now w11
      in (\<lparr>User_id_default = user_id,
           User_created_at_default = user_created_at,
           User_backup_code_default = bytes_hex user_backup_bytes,
           UserSession_id_default = session_id,
           UserSession_created_at_default = session_created_at,
           UserSession_last_seen_default = session_last_seen,
           Quiz_id_default = quiz_id,
           Quiz_created_at_default = quiz_created_at,
           Quiz_updated_at_default = quiz_updated_at,
           InstanceData_instance_id_default = instance_id,
           GameResults_timestamp_default = results_timestamp,
           StorageItem_uploaded_at_default = storage_uploaded_at\<rparr>, w12))"

section \<open>Database models\<close>

text \<open>Length and range constraints of a field; they apply to a value that is given.\<close>

definition max_length :: "string \<Rightarrow> nat \<Rightarrow> 'a list option \<Rightarrow> string list" where
  "max_length name n arg =
     (case arg of None \<Rightarrow> [] | Some s \<Rightarrow> if n < length s then [name] else [])"

definition min_length :: "string \<Rightarrow> nat \<Rightarrow> 'a list option \<Rightarrow> string list" where
  "min_length name n arg =
     (case arg of None \<Rightarrow> [] | Some s \<Rightarrow> if length s < n then [name] else [])"

definition minimum :: "string \<Rightarrow> int \<Rightarrow> int option \<Rightarrow> string list" where
  "minimum name n arg =
     (case arg of None \<Rightarrow> [] | Some x \<Rightarrow> if x < n then [name] else [])"

subsection \<open>\<^verbatim>\<open>User\<close>\<close>

datatype UserAuthTypes = LOCAL | GOOGLE | GITHUB | CUSTOM

record User =
  id_f :: uuid
  email :: string
  username :: string
  password :: "string option"
  verified :: bool
  verify_key :: "string option"
  created_at :: datetime
  auth_type :: UserAuthTypes
  google_uid :: "string option"
  avatar :: "8 word list"
  github_user_id :: "int option"
  require_password :: bool
  backup_code :: string
  totp_secret :: "string option"
  storage_used :: int

record User_kwargs =
  u_id :: "uuid option"
  u_email :: "string option"
  u_username :: "string option"
  u_password :: "string option"
  u_verified :: "bool option"
  u_verify_key :: "string option"
  u_created_at :: "datetime option"
  u_auth_type :: "UserAuthTypes option"
  u_google_uid :: "string option"
  u_avatar :: "8 word list option"
  u_github_user_id :: "int option"
  u_require_password :: "bool option"
  u_backup_code :: "string option"
  u_totp_secret :: "string option"
  u_storage_used :: "int option"

text \<open>
  \<^verbatim>\<open>User(...)\<close>, in a process whose module defaults are \<open>md\<close>. A field declared
  with \<^verbatim>\<open>default=\<close> takes the value stored in the class when its argument is missing.
\<close>

definition User_init :: "module_defaults \<Rightarrow> User_kwargs \<Rightarrow> error + User" where
  "User_init md kw =
     (let errs = required ''email'' (u_email kw) @ max_length ''email'' 100 (u_email kw)
               @ required ''username'' (u_username kw) @ max_length ''username'' 100 (u_username kw)
               @ max_length ''password'' 100 (u_password kw)
               @ max_length ''verify_key'' 100 (u_verify_key kw)
               @ max_length ''google_uid'' 255 (u_google_uid kw)
               @ required ''avatar'' (u_avatar kw) @ max_length ''avatar'' 25000 (u_avatar kw)
               @ min_length ''backup_code'' 64 (u_backup_code kw)
               @ max_length ''backup_code'' 64 (u_backup_code kw)
               @ min_length ''totp_secret'' 32 (u_totp_secret kw)
               @ max_length ''totp_secret'' 32 (u_totp_secret kw)
               @ minimum ''storage_used'' 0 (u_storage_used kw)
      in if errs \<noteq> [] then Inl (ValidationError errs)
         else Inr \<lparr>id_f = with_default (User_id_default md) (u_id kw),
                   email = the (u_email kw),
                   username = the (u_username kw),
                   password = u_password kw,
                   verified = with_default False (u_verified kw),
                   verify_key = u_verify_key kw,
                   created_at = with_default (User_created_at_default md) (u_created_at kw),
                   auth_type = with_default LOCAL (u_auth_type kw),
                   google_uid = u_google_uid kw,
                   avatar = the (u_avatar kw),
                   github_user_id = u_github_user_id kw,
                   require_password = with_default True (u_require_password kw),
                   backup_code = with_default (User_backup_code_default md) (u_backup_code kw),
                   totp_secret = u_totp_secret kw,
                   storage_used = with_default 0 (u_storage_used kw)\<rparr>)"

subsection \<open>\<^verbatim>\<open>Quiz\<close>\<close>

record Quiz =
  id_f :: uuid
  public :: bool
  title :: string
  description :: "string option"
  created_at :: datetime
  updated_at :: datetime
  user_id :: "uuid option"
  questions :: "QuizQuestion list"
  imported_from_kahoot :: "bool option"
  cover_image :: "string option"
  background_color :: "string option"
  background_image :: "string option"
  kahoot_id :: "uuid option"

record Quiz_kwargs =
  q_id :: "uuid option"
  q_public :: "bool option"
  q_title :: "string option"
  q_description :: "string option"
  q_created_at :: "datetime option"
  q_updated_at :: "datetime option"
  q_user_id :: "uuid option"
  q_questions :: "QuizQuestion list option"
  q_imported_from_kahoot :: "bool option"
  q_cover_image :: "string option"
  q_background_color :: "string option"
  q_background_image :: "string option"
  q_kahoot_id :: "uuid option"

text \<open>
  The validator of \<^verbatim>\<open>background_image\<close>. \<^verbatim>\<open>server_regex\<close> comes from the
  configuration, which is not part of this file: \<open>server_regex_match v\<close> stands for
  \<^verbatim>\<open>bool(re.match(server_regex, v))\<close>.
\<close>

definition must_come_from_local_cdn ::
  "(string \<Rightarrow> bool) \<Rightarrow> string option \<Rightarrow> error + string option" where
  "must_come_from_local_cdn server_regex_match v =
     (case v of
        None \<Rightarrow> Inr v
      | Some s \<Rightarrow> if server_regex_match s then Inr v
                  else Inl (ValueError ''does not match url scheme''))"

definition Quiz_init ::
  "module_defaults \<Rightarrow> (string \<Rightarrow> bool) \<Rightarrow> Quiz_kwargs \<Rightarrow> error + Quiz" where
  "Quiz_init md server_regex_match kw =
     (let errs = required ''title'' (q_title kw)
               @ required ''questions'' (q_questions kw)
               @ (case must_come_from_local_cdn server_regex_match (q_background_image kw) of
                    Inl _ \<Rightarrow> [''background_image''] | Inr _ \<Rightarrow> [])
      in if errs \<noteq> [] then Inl (ValidationError errs)
         else Inr \<lparr>id_f = with_default (Quiz_id_default md) (q_id kw),
                   public = with_default False (q_public kw),
                   title = the (q_title kw),
                   description = q_description kw,
                   created_at = with_default (Quiz_created_at_default md) (q_created_at kw),
                   updated_at = with_default (Quiz_updated_at_default md) (q_updated_at kw),
                   user_id = q_user_id kw,
                   questions = the (q_questions kw),
                   imported_from_kahoot = Some (with_default False (q_imported_from_kahoot kw)),
                   cover_image = q_cover_image kw,
                   background_color = q_background_color kw,
                   background_image = q_background_image kw,
                   kahoot_id = q_kahoot_id kw\<rparr>)"

subsection \<open>\<^verbatim>\<open>GameResults\<close>\<close>

text \<open>
  \<^verbatim>\<open>quiz\<close> and \<^verbatim>\<open>user\<close> are foreign keys: the row holds the key of the row it refers
  to. \<^verbatim>\<open>title\<close>, \<^verbatim>\<open>description\<close> and \<^verbatim>\<open>questions\<close> are columns of the row itself,
  declared \<^verbatim>\<open>nullable=False\<close>. The field \<^verbatim>\<open>note\<close> carries a suffix: the name is reserved.
\<close>

record GameResults =
  id_f :: uuid
  quiz :: "uuid option"
  user :: "uuid option"
  timestamp :: datetime
  player_count :: int
  note_f :: "string option"
  answers :: "AnswerData list"
  player_scores :: "(string \<rightharpoonup> string) option"
  custom_field_data :: "(string \<rightharpoonup> string) option"
  title :: string
  description :: string
  questions :: "QuizQuestion list"

record GameResults_kwargs =
  gr_id :: "uuid option"
  gr_quiz :: "uuid option"
  gr_user :: "uuid option"
  gr_timestamp :: "datetime option"
  gr_player_count :: "int option"
  gr_note :: "string option"
  gr_answers :: "AnswerData list option"
  gr_player_scores :: "(string \<rightharpoonup> string) option"
  gr_custom_field_data :: "(string \<rightharpoonup> string) option"
  gr_title :: "string option"
  gr_description :: "string option"
  gr_questions :: "QuizQuestion list option"

definition GameResults_init :: "module_defaults \<Rightarrow> GameResults_kwargs \<Rightarrow> error + GameResults" where
  "GameResults_init md kw =
     (let errs = required ''id'' (gr_id kw)
               @ required ''answers'' (gr_answers kw)
               @ required ''title'' (gr_title kw)
               @ required ''description'' (gr_description kw)
               @ required ''questions'' (gr_questions kw)
      in if errs \<noteq> [] then Inl (ValidationError errs)
         else Inr \<lparr>id_f = the (gr_id kw),
                   quiz = gr_quiz kw,
                   user = gr_user kw,
                   timestamp = with_default (GameResults_timestamp_default md) (gr_timestamp kw),
                   player_count = with_default 0 (gr_player_count kw),
                   note_f = gr_note kw,
                   answers = the (gr_answers kw),
                   player_scores = gr_player_scores kw,
                   custom_field_data = gr_custom_field_data kw,
                   title = the (gr_title kw),
                   description = the (gr_description kw),
                   questions = the (gr_questions kw)\<rparr>)"

section \<open>The live session\<close>

text \<open>
  The source file declares the data of a session; the operations on a live session
  (creating it, the host's transitions, accepting an answer, the final results) are
  not in it. They are modelled here from sections 3 and 4 of the specification, over
  the records of the source: the quiz is a \<open>Quiz\<close>, a player is a \<open>GamePlayer\<close>, a
  recorded answer is an \<open>AnswerData\<close>.
\<close>

text \<open>
  Modelled from the spec: the state of a game session (section 3, GameSession). The
  ledger holds the accepted submissions, each with the index of its question, in the
  order of their acceptance.
\<close>

record LiveSession =
  ls_quiz :: Quiz
  ls_host_id :: uuid
  ls_current_question :: int
  ls_question_show :: bool
  ls_started :: bool
  ls_finished :: bool
  ls_captcha_enabled :: bool
  ls_roster :: "GamePlayer list"
  ls_ledger :: "(int \<times> AnswerData) list"

text \<open>
  Modelled from the spec: the reasons of \<open>AnswerRejected\<close> (section 7) and the
  failure of a transition (\<open>InvalidTransition\<close>).
\<close>

datatype reject_reason =
  stale_question | question_hidden | duplicate | not_answerable | unknown_player

datatype transition_error = InvalidTransition

text \<open>
  Modelled from the spec: \<open>create\<close> of the Session Registry (section 4.1), which
  allocates a session in lobby state. The registry itself and the pin are left out.
\<close>

definition create :: "Quiz \<Rightarrow> uuid \<Rightarrow> bool \<Rightarrow> LiveSession" where
  "create quiz_snapshot host_id captcha =
     \<lparr>ls_quiz = quiz_snapshot, ls_host_id = host_id, ls_current_question = - 1,
      ls_question_show = False, ls_started = False, ls_finished = False,
      ls_captcha_enabled = captcha, ls_roster = [], ls_ledger = []\<rparr>"

text \<open>Modelled from the spec: the state IN_PROGRESS of section 4.4.\<close>

definition in_progress :: "LiveSession \<Rightarrow> bool" where
  "in_progress s = (ls_started s \<and> \<not> ls_finished s)"

text \<open>Modelled from the spec: \<open>start()\<close> of section 4.4.\<close>

definition start :: "LiveSession \<Rightarrow> transition_error + LiveSession" where
  "start s =
     (if ls_started s \<or> ls_finished s then Inl InvalidTransition
      else Inr (s\<lparr>ls_started := True\<rparr>))"

text \<open>Modelled from the spec: \<open>advance_question()\<close> of section 4.4.\<close>

definition advance_question :: "LiveSession \<Rightarrow> transition_error + LiveSession" where
  "advance_question s =
     (if \<not> in_progress s then Inl InvalidTransition
      else let n = ls_current_question s + 1
           in if n = int (length (Quiz.questions (ls_quiz s)))
              then Inr (s\<lparr>ls_current_question := n, ls_finished := True,
                          ls_question_show := False\<rparr>)
              else Inr (s\<lparr>ls_current_question := n, ls_question_show := True\<rparr>))"

text \<open>Modelled from the spec: \<open>hide_question()\<close> of section 4.4.\<close>

definition hide_question :: "LiveSession \<Rightarrow> LiveSession" where
  "hide_question s = s\<lparr>ls_question_show := False\<rparr>"

text \<open>
  Modelled from the spec: the submissions recorded for a player and a question index
  (the ledger of section 3, read as a mapping).
\<close>

definition submissions_of :: "LiveSession \<Rightarrow> string \<Rightarrow> int \<Rightarrow> AnswerData list" where
  "submissions_of s p q =
     map snd (filter (\<lambda>e. fst e = q \<and> AnswerData.username (snd e) = p) (ls_ledger s))"

text \<open>Modelled from the spec: the question at an index of the quiz snapshot.\<close>

definition question_at :: "LiveSession \<Rightarrow> int \<Rightarrow> QuizQuestion option" where
  "question_at s i =
     (if 0 \<le> i \<and> i < int (length (Quiz.questions (ls_quiz s)))
      then Some (Quiz.questions (ls_quiz s) ! nat i) else None)"

text \<open>
  Modelled from the spec: \<open>submit_answer\<close> of section 4.4. The Answer Validator
  (section 4.5) and the Scorer (section 4.6, which returns an integer that is not
  negative) are parameters. A submission is accepted only if the player is in the
  roster, the index is the current question, the session is in progress and the
  question is shown, the question is not a slide (section 4.5), and the player has no
  submission recorded for that index; otherwise it is rejected with the reason and
  the session stays as it is.
\<close>

definition submit_answer ::
  "(QuizQuestion \<Rightarrow> string \<Rightarrow> bool) \<Rightarrow> (QuizQuestion \<Rightarrow> bool \<Rightarrow> real \<Rightarrow> nat) \<Rightarrow>
   LiveSession \<Rightarrow> string \<Rightarrow> int \<Rightarrow> string \<Rightarrow> real \<Rightarrow> reject_reason + LiveSession" where
  "submit_answer answer_validator scorer s player question_index payload t =
     (if player \<notin> set (map GamePlayer.username (ls_roster s)) then Inl unknown_player
      else if question_index \<noteq> ls_current_question s then Inl stale_question
      else if \<not> in_progress s \<or> \<not> ls_question_show s then Inl question_hidden
      else case question_at s question_index of
             None \<Rightarrow> Inl stale_question
           | Some qu \<Rightarrow>
               if QuizQuestion.type qu = Some SLIDE then Inl not_answerable
               else if submissions_of s player question_index \<noteq> [] then Inl duplicate
               else let correct = answer_validator qu payload
                    in Inr (s\<lparr>ls_ledger := ls_ledger s @
                              [(question_index,
                                \<lparr>AnswerData.username = player, AnswerData.answer = payload,
                                 AnswerData.right = correct, AnswerData.time_taken = t,
                                 AnswerData.score = int (scorer qu correct t)\<rparr>)]\<rparr>))"

text \<open>
  Modelled from the spec: the commands a session receives. \<open>Roster_change\<close> stands
  for \<open>join\<close>, \<open>reconnect\<close> and \<open>disconnect\<close> of section 4.3, which change the
  roster and nothing else; it may put any roster in place, so that nothing here
  depends on the admission policy.
\<close>

datatype command =
    Start
  | Advance_question
  | Hide_question
  | Submit_answer string int string real
  | Roster_change "GamePlayer list"

text \<open>
  Modelled from the spec: one command applied to a session; a command that fails
  leaves the session as it is (section 7).
\<close>

fun step ::
  "(QuizQuestion \<Rightarrow> string \<Rightarrow> bool) \<Rightarrow> (QuizQuestion \<Rightarrow> bool \<Rightarrow> real \<Rightarrow> nat) \<Rightarrow>
   LiveSession \<Rightarrow> command \<Rightarrow> LiveSession" where
  "step V S s Start = (case start s of Inl _ \<Rightarrow> s | Inr s' \<Rightarrow> s')"
| "step V S s Advance_question = (case advance_question s of Inl _ \<Rightarrow> s | Inr s' \<Rightarrow> s')"
| "step V S s Hide_question = hide_question s"
| "step V S s (Submit_answer p q x t) =
     (case submit_answer V S s p q x t of Inl _ \<Rightarrow> s | Inr s' \<Rightarrow> s')"
| "step V S s (Roster_change r) = s\<lparr>ls_roster := r\<rparr>"

text \<open>Modelled from the spec: a session's history, command after command.\<close>

fun run ::
  "(QuizQuestion \<Rightarrow> string \<Rightarrow> bool) \<Rightarrow> (QuizQuestion \<Rightarrow> bool \<Rightarrow> real \<Rightarrow> nat) \<Rightarrow>
   LiveSession \<Rightarrow> command list \<Rightarrow> LiveSession" where
  "run V S s [] = s"
| "run V S s (c # cs) = run V S (step V S s c) cs"

text \<open>
  Modelled from the spec: the total of a player, the sum of the scores of the
  player's recorded submissions over all questions (section 4.7).
\<close>

definition player_total :: "LiveSession \<Rightarrow> string \<Rightarrow> int" where
  "player_total s p =
     sum_list (map (\<lambda>e. AnswerData.score (snd e))
                (filter (\<lambda>e. AnswerData.username (snd e) = p) (ls_ledger s)))"

text \<open>
  Modelled from the spec: how a total is written into the score mapping. The column
  \<^verbatim>\<open>player_scores\<close> of \<open>GameResults\<close> is declared \<^verbatim>\<open>Json[dict[str, str]]\<close>, so an
  integer total is stored as Python's \<^verbatim>\<open>str(total)\<close>, its decimal numeral.
\<close>

definition digit_char :: "nat \<Rightarrow> char" where
  "digit_char d = ''0123456789'' ! (d mod 10)"

text \<open>
  Modelled from the spec: the decimal digits of a natural number, most significant
  first, as \<^verbatim>\<open>str\<close> writes them.
\<close>

function str_nat :: "nat \<Rightarrow> string" where
  "str_nat n = (if n < 10 then [digit_char n] else str_nat (n div 10) @ [digit_char (n mod 10)])"
  by pat_completeness auto
termination
  by (relation "measure id") auto

text \<open>
  Modelled from the spec: \<^verbatim>\<open>str(i)\<close> for an integer, with a minus sign when it is
  negative.
\<close>

definition str_int :: "int \<Rightarrow> string" where
  "str_int i = (if i < 0 then CHR ''-'' # str_nat (nat (- i)) else str_nat (nat i))"

text \<open>
  Modelled from the spec: the value of a decimal digit, for reading a stored score
  back as an integer.
\<close>

definition digit_val :: "char \<Rightarrow> nat option" where
  "digit_val c =
     (let n = of_char c :: nat in if 48 \<le> n \<and> n \<le> 57 then Some (n - 48) else None)"

text \<open>
  Modelled from the spec: the number that a string of decimal digits denotes, read
  from the left with an accumulator; \<open>None\<close> when a character is not a digit.
\<close>

fun nat_of_digits :: "nat \<Rightarrow> string \<Rightarrow> nat option" where
  "nat_of_digits acc [] = Some acc"
| "nat_of_digits acc (c # cs) =
     (case digit_val c of None \<Rightarrow> None | Some d \<Rightarrow> nat_of_digits (10 * acc + d) cs)"

text \<open>
  Modelled from the spec: \<^verbatim>\<open>int(s)\<close> on an optional minus sign followed by decimal
  digits.
\<close>

definition int_of_str :: "string \<Rightarrow> int option" where
  "int_of_str s =
     (case s of
        [] \<Rightarrow> None
      | c # cs \<Rightarrow>
          if c = CHR ''-'' then (if cs = [] then None
                                else map_option (\<lambda>n. - int n) (nat_of_digits 0 cs))
          else map_option int (nat_of_digits 0 s))"

text \<open>
  Modelled from the spec: the Results Finalizer of section 4.7, which is not in the
  source. It builds the \<open>GameResults\<close> record of the source with that record's
  constructor: the quiz's id, the host, the time, the number of players, the
  recorded answers question by question, for every player of the roster the total of
  the player's recorded scores, and the title, description and questions of the
  session's quiz. The constructor rejects a quiz without a description.
\<close>

definition finalize ::
  "module_defaults \<Rightarrow> uuid \<Rightarrow> datetime \<Rightarrow> (string \<rightharpoonup> string) option \<Rightarrow> LiveSession
     \<Rightarrow> error + GameResults" where
  "finalize md result_id now custom s =
     GameResults_init md
       \<lparr>gr_id = Some result_id,
        gr_quiz = Some (Quiz.id_f (ls_quiz s)),
        gr_user = Some (ls_host_id s),
        gr_timestamp = Some now,
        gr_player_count = Some (int (length (ls_roster s))),
        gr_note = None,
        gr_answers = Some (concat
          (map (\<lambda>i. map snd (filter (\<lambda>e. fst e = int i) (ls_ledger s)))
             [0 ..< length (Quiz.questions (ls_quiz s))])),
        gr_player_scores = Some
          (map_of (map (\<lambda>pl. (GamePlayer.username pl,
                               str_int (player_total s (GamePlayer.username pl))))
                     (ls_roster s))),
        gr_custom_field_data = custom,
        gr_title = Some (Quiz.title (ls_quiz s)),
        gr_description = Quiz.description (ls_quiz s),
        gr_questions = Some (Quiz.questions (ls_quiz s))\<rparr>"

section \<open>Example inputs\<close>

text \<open>A question with one ABCD answer, its keyword arguments and the instance they give.\<close>

definition ex_abcd_item :: raw_item where
  "ex_abcd_item =
     \<lparr>raw_right = Some True, raw_answer = Some ''4'', raw_color = None, raw_image = None,
      raw_case_sensitive = None\<rparr>"

definition ex_abcd_kwargs :: "raw_answers QuizQuestion_kwargs" where
  "ex_abcd_kwargs =
     \<lparr>kw_question = Some ''2 + 2?'', kw_time = Some ''20'', kw_type = Some (Some ABCD),
      kw_answers = Some (Raw_list [ex_abcd_item]), kw_image = None\<rparr>"

definition ex_abcd_answers :: answers_value where
  "ex_abcd_answers = Answers_list
        [Item_ABCD \<lparr>ABCDQuizAnswer.right = True, ABCDQuizAnswer.answer = ''4'',
                    ABCDQuizAnswer.color = None\<rparr>]"

definition ex_abcd_question :: QuizQuestion where
  "ex_abcd_question =
     \<lparr>question = ''2 + 2?'', time = ''20'', type = Some ABCD,
      QuizQuestion.answers = ex_abcd_answers, image_f = None\<rparr>"

text \<open>A question whose type is given as \<^verbatim>\<open>None\<close>.\<close>

definition ex_untyped_kwargs :: "raw_answers QuizQuestion_kwargs" where
  "ex_untyped_kwargs =
     \<lparr>kw_question = Some ''Welcome'', kw_time = Some ''5'', kw_type = Some None,
      kw_answers = Some (Raw_str ''Hello''), kw_image = None\<rparr>"

definition ex_untyped_question :: QuizQuestion where
  "ex_untyped_question =
     \<lparr>question = ''Welcome'', time = ''5'', type = None,
      QuizQuestion.answers = Answers_str ''Hello'', image_f = None\<rparr>"

text \<open>
  A voting question whose answers are given as a list of two items of different
  classes: what a \<open>VotingQuizAnswer\<close> carries, then what an \<open>ABCDQuizAnswer\<close>
  carries. The union makes a list of \<open>VotingQuizAnswer\<close> of it.
\<close>

definition ex_voting_item :: raw_item where
  "ex_voting_item =
     \<lparr>raw_right = None, raw_answer = Some ''a'', raw_color = None, raw_image = None,
      raw_case_sensitive = None\<rparr>"

definition ex_mixed_kwargs :: "raw_answers QuizQuestion_kwargs" where
  "ex_mixed_kwargs =
     \<lparr>kw_question = Some ''Which?'', kw_time = Some ''20'', kw_type = Some (Some VOTING),
      kw_answers = Some (Raw_list [ex_voting_item, ex_abcd_item]), kw_image = None\<rparr>"

definition ex_mixed_question :: QuizQuestion where
  "ex_mixed_question =
     \<lparr>question = ''Which?'', time = ''20'', type = Some VOTING,
      QuizQuestion.answers = Answers_list
        [Item_Voting \<lparr>VotingQuizAnswer.answer = ''a'', VotingQuizAnswer.image_f = None,
                      VotingQuizAnswer.color = None\<rparr>,
         Item_Voting \<lparr>VotingQuizAnswer.answer = ''4'', VotingQuizAnswer.image_f = None,
                      VotingQuizAnswer.color = None\<rparr>],
      image_f = None\<rparr>"

text \<open>The arguments of a game created without the fields that have defaults.\<close>

definition ex_playgame_kwargs :: PlayGame_kwargs where
  "ex_playgame_kwargs =
     \<lparr>pg_quiz_id = Some (Inl 1), pg_description = Some ''sums'', pg_user_id = Some 2,
      pg_title = Some ''Arithmetic'', pg_questions = Some [ex_abcd_question],
      pg_game_id = Some 3, pg_game_pin = Some ''123456'', pg_started = None,
      pg_captcha_enabled = None, pg_cover_image = None, pg_game_mode = None,
      pg_current_question = None, pg_background_color = None,
      pg_background_image = None, pg_custom_field = None, pg_question_show = None\<rparr>"

text \<open>An answer with a negative time and a negative score.\<close>

definition ex_negative_kwargs :: AnswerData_kwargs where
  "ex_negative_kwargs =
     \<lparr>ad_username = Some ''alice'', ad_answer = Some ''4'', ad_right = Some True,
      ad_time_taken = Some (- 1), ad_score = Some (- 1)\<rparr>"

definition ex_negative_answer :: AnswerData where
  "ex_negative_answer =
     \<lparr>AnswerData.username = ''alice'', AnswerData.answer = ''4'', AnswerData.right = True,
      AnswerData.time_taken = - 1, AnswerData.score = - 1\<rparr>"

text \<open>A world at the time the module is loaded, and arguments that leave the defaults out.\<close>

definition ex_world :: world where
  "ex_world = \<lparr>urandom_stream = (\<lambda>n. of_nat (7 * n + 3)), urandom_pos = 0,
               clock_stream = (\<lambda>n. 1700000000000000 + 250 * n), clock_pos = 0\<rparr>"

definition ex_user_kwargs :: "string \<Rightarrow> User_kwargs" where
  "ex_user_kwargs name =
     \<lparr>u_id = None, u_email = Some (name @ ''@example.org''), u_username = Some name,
      u_password = None, u_verified = None, u_verify_key = None, u_created_at = None,
      u_auth_type = None, u_google_uid = None, u_avatar = Some [], u_github_user_id = None,
      u_require_password = None, u_backup_code = None, u_totp_secret = None,
      u_storage_used = None\<rparr>"

definition ex_quiz_kwargs :: "string \<Rightarrow> Quiz_kwargs" where
  "ex_quiz_kwargs t =
     \<lparr>q_id = None, q_public = None, q_title = Some t, q_description = None,
      q_created_at = None, q_updated_at = None, q_user_id = None,
      q_questions = Some [ex_abcd_question], q_imported_from_kahoot = None,
      q_cover_image = None, q_background_color = None, q_background_image = None,
      q_kahoot_id = None\<rparr>"

definition ex_results_kwargs :: "uuid \<Rightarrow> GameResults_kwargs" where
  "ex_results_kwargs i =
     \<lparr>gr_id = Some i, gr_quiz = Some 7, gr_user = None, gr_timestamp = None,
      gr_player_count = None, gr_note = None, gr_answers = Some [],
      gr_player_scores = None, gr_custom_field_data = None, gr_title = Some ''Arithmetic'',
      gr_description = Some ''sums'', gr_questions = Some [ex_abcd_question]\<rparr>"

text \<open>
  A session of two questions with the players alice and bob, in which alice answers
  the first question; a validator and a scorer for it.
\<close>

definition ex_quiz :: Quiz where
  "ex_quiz =
     \<lparr>Quiz.id_f = 7, public = False, Quiz.title = ''Arithmetic'',
      Quiz.description = Some ''sums'', Quiz.created_at = 0, updated_at = 0,
      Quiz.user_id = Some 9, Quiz.questions = [ex_abcd_question, ex_abcd_question],
      imported_from_kahoot = Some False, Quiz.cover_image = None,
      Quiz.background_color = None, Quiz.background_image = None, kahoot_id = None\<rparr>"



definition ex_validator :: "QuizQuestion \<Rightarrow> string \<Rightarrow> bool" where
  "ex_validator qu payload = (payload = ''4'')"

definition ex_scorer :: "QuizQuestion \<Rightarrow> bool \<Rightarrow> real \<Rightarrow> nat" where
  "ex_scorer qu correct t = (if correct then 800 else 0)"

definition ex_commands :: "command list" where
  "ex_commands =
     [Roster_change [\<lparr>GamePlayer.username = ''alice'', sid = Some ''s1''\<rparr>,
                     \<lparr>GamePlayer.username = ''bob'', sid = Some ''s2''\<rparr>],
      Start, Advance_question, Submit_answer ''alice'' 0 ''4'' 1500]"

definition ex_alice_answer :: AnswerData where
  "ex_alice_answer =
     \<lparr>AnswerData.username = ''alice'', AnswerData.answer = ''4'', AnswerData.right = True,
      AnswerData.time_taken = 1500, AnswerData.score = 800\<rparr>"

section \<open>The answers of a question\<close>

text \<open>The validator returns the value it was given.\<close>

lemma validator_returns:
  "answers_not_none_if_abcd_type v values = Inr v' \<Longrightarrow> v' = v"
  by (auto simp: answers_not_none_if_abcd_type_def raise_if_def py_and_def
      split: option.splits sum.splits if_splits)

text \<open>What the validator has checked when it returns, per type tag.\<close>

lemma validator_tag:
  "answers_not_none_if_abcd_type v [''type'' \<mapsto> Some t] = Inr v' \<Longrightarrow>
   (case t of ABCD \<Rightarrow> type_v0_ne v T_ABCDQuizAnswer = Inr False
     | CHECK \<Rightarrow> type_v0_ne v T_ABCDQuizAnswer = Inr False
     | RANGE \<Rightarrow> type_of_value v = T_RangeQuizAnswer
     | VOTING \<Rightarrow> type_v0_ne v T_VotingQuizAnswer = Inr False
     | ORDER \<Rightarrow> type_v0_ne v T_VotingQuizAnswer = Inr False
     | TEXT \<Rightarrow> type_v0_ne v T_TextQuizAnswer = Inr False
     | SLIDE \<Rightarrow> type_v0_ne v T_str = Inr False)"
  by (cases t) (auto simp: answers_not_none_if_abcd_type_def raise_if_def py_and_def split: sum.splits if_splits)

text \<open>In an instance of the annotation the class of the first item is the class of all.\<close>

lemma first_decides_list:
  "conforms_to_annotation v \<Longrightarrow> type_v0_ne v T = Inr False \<Longrightarrow>
   (T = T_ABCDQuizAnswer \<longrightarrow> is_list_of is_ABCD v) \<and>
   (T = T_VotingQuizAnswer \<longrightarrow> is_list_of is_Voting v) \<and>
   (T = T_TextQuizAnswer \<longrightarrow> is_list_of is_Text v) \<and>
   (T = T_str \<longrightarrow> type_of_value v = T_str)"
  apply (cases v)
  subgoal for xs by (cases xs) (auto simp: type_v0_ne_def is_list_of_def is_ABCD_def is_Text_def is_Voting_def)
  subgoal by (auto simp: type_v0_ne_def)
  subgoal for s by (cases s) (auto simp: type_v0_ne_def is_list_of_def)
  done

lemma validator_shape:
  "conforms_to_annotation v \<Longrightarrow> answers_not_none_if_abcd_type v [''type'' \<mapsto> Some t] = Inr v' \<Longrightarrow> shape_matches t v"
  using validator_tag[of v t v'] first_decides_list[of v]
  by (cases t) auto

text \<open>What an accepted question says of the arguments.\<close>

lemma init_accepts:
  assumes "QuizQuestion_init F kw = Inr q"
  shows "\<exists>raw v. kw_answers kw = Some raw \<and> F raw = Some v \<and> QuizQuestion.answers q = v
     \<and> QuizQuestion.type q = with_default (Some ABCD) (kw_type kw)
     \<and> answers_not_none_if_abcd_type v [''type'' \<mapsto> with_default (Some ABCD) (kw_type kw)] = Inr v"
proof -
  from assms obtain raw v v' where a: "kw_answers kw = Some raw" "F raw = Some v"
    "QuizQuestion.answers q = v'"
    "QuizQuestion.type q = with_default (Some ABCD) (kw_type kw)"
    "answers_not_none_if_abcd_type v [''type'' \<mapsto> with_default (Some ABCD) (kw_type kw)] = Inr v'"
    by (auto simp: QuizQuestion_init_def validate_answers_def Let_def
        split: sum.splits option.splits if_splits error.splits prod.splits)
  from validator_returns[OF a(5)] a show ?thesis by auto
qed

text \<open>The union tried in order returns an instance of the annotation.\<close>

lemma validate_union_sound: "field_validation_sound validate_union"
  unfolding field_validation_sound_def
proof (intro allI impI)
  fix raw v
  assume "validate_union raw = Some v"
  then show "conforms_to_annotation v"
    by (cases raw)
      (auto simp: validate_union_def list_all_iff is_ABCD_def is_Text_def is_Voting_def
        split: option.splits)
qed

text \<open>
  Claim C1. A \<open>QuizQuestion\<close> that the constructor accepts with a type tag has an
  answers payload of the shape of that tag: a list of \<open>ABCDQuizAnswer\<close> for ABCD and
  CHECK, a \<open>RangeQuizAnswer\<close> for RANGE, a list of \<open>VotingQuizAnswer\<close> for VOTING
  and ORDER, a list of \<open>TextQuizAnswer\<close> for TEXT, a string for SLIDE. The payload
  is the value the validation of the field makes of the argument; when its shape is
  not the one of the tag, or when no member of the union accepts the argument, the
  constructor does not return a question.
\<close>

theorem QuizQuestion_answers_shape:
  assumes "field_validation_sound validate_field"
  shows "(QuizQuestion_init validate_field kw = Inr q \<and> QuizQuestion.type q = Some t
            \<longrightarrow> shape_matches t (QuizQuestion.answers q)) \<and>
         (kw_answers kw = Some raw \<and> validate_field raw = Some v
            \<and> with_default (Some ABCD) (kw_type kw) = Some t \<and> \<not> shape_matches t v
            \<longrightarrow> isl (QuizQuestion_init validate_field kw)) \<and>
         (kw_answers kw = Some raw \<and> validate_field raw = None
            \<longrightarrow> isl (QuizQuestion_init validate_field kw))"
proof (intro conjI impI)
  assume a: "QuizQuestion_init validate_field kw = Inr q \<and> QuizQuestion.type q = Some t"
  then obtain raw v where v: "validate_field raw = Some v" "QuizQuestion.answers q = v"
    "answers_not_none_if_abcd_type v [''type'' \<mapsto> Some t] = Inr v"
    using init_accepts[of validate_field kw q] by auto
  from assms v(1) have "conforms_to_annotation v"
    by (auto simp: field_validation_sound_def)
  with v show "shape_matches t (QuizQuestion.answers q)"
    using validator_shape by auto
next
  assume b: "kw_answers kw = Some raw \<and> validate_field raw = Some v
      \<and> with_default (Some ABCD) (kw_type kw) = Some t \<and> \<not> shape_matches t v"
  from assms b have c: "conforms_to_annotation v"
    by (auto simp: field_validation_sound_def)
  show "isl (QuizQuestion_init validate_field kw)"
  proof (rule ccontr)
    assume "\<not> isl (QuizQuestion_init validate_field kw)"
    then obtain q where q: "QuizQuestion_init validate_field kw = Inr q"
      by (cases "QuizQuestion_init validate_field kw") auto
    from init_accepts[OF q] b c validator_shape show False by auto
  qed
next
  assume "kw_answers kw = Some raw \<and> validate_field raw = None"
  then show "isl (QuizQuestion_init validate_field kw)"
    by (simp add: QuizQuestion_init_def validate_answers_def Let_def)
qed

text \<open>The example questions are accepted.\<close>

lemma ex_abcd_accepted: "QuizQuestion_init validate_union ex_abcd_kwargs = Inr ex_abcd_question"
  by (simp add: ex_abcd_kwargs_def ex_abcd_question_def ex_abcd_answers_def ex_abcd_item_def
        QuizQuestion_init_def validate_answers_def validate_union_def to_list_def to_ABCD_def
        answers_not_none_if_abcd_type_def raise_if_def py_and_def type_v0_ne_def
        with_default_def required_def Let_def)

lemma ex_mixed_coerced:
  "validate_union (Raw_list [ex_voting_item, ex_abcd_item])
     = Some (QuizQuestion.answers ex_mixed_question)"
  by (simp add: ex_mixed_question_def ex_voting_item_def ex_abcd_item_def
        validate_union_def to_list_def to_ABCD_def to_Text_def to_Voting_def)

lemma ex_mixed_accepted: "QuizQuestion_init validate_union ex_mixed_kwargs = Inr ex_mixed_question"
  using ex_mixed_coerced
  by (simp add: ex_mixed_kwargs_def QuizQuestion_init_def validate_answers_def
        answers_not_none_if_abcd_type_def raise_if_def py_and_def type_v0_ne_def
        with_default_def required_def Let_def ex_mixed_question_def)

theorem QuizQuestion_answers_shape_witness:
  "field_validation_sound validate_union \<and>
   QuizQuestion_init validate_union ex_abcd_kwargs = Inr ex_abcd_question \<and>
   QuizQuestion.type ex_abcd_question = Some ABCD \<and>
   shape_matches ABCD (QuizQuestion.answers ex_abcd_question) \<and>
   QuizQuestion_init validate_union ex_mixed_kwargs = Inr ex_mixed_question \<and>
   QuizQuestion.type ex_mixed_question = Some VOTING \<and>
   shape_matches VOTING (QuizQuestion.answers ex_mixed_question) \<and>
   validate_union (Raw_list [ex_voting_item, ex_abcd_item])
     = Some (QuizQuestion.answers ex_mixed_question) \<and>
   \<not> shape_matches ABCD (QuizQuestion.answers ex_mixed_question) \<and>
   isl (QuizQuestion_init validate_union (ex_mixed_kwargs\<lparr>kw_type := Some (Some ABCD)\<rparr>)) \<and>
   validate_union (Raw_list [ex_voting_item\<lparr>raw_answer := None\<rparr>]) = None \<and>
   isl (QuizQuestion_init validate_union
          (ex_mixed_kwargs\<lparr>kw_answers := Some (Raw_list [ex_voting_item\<lparr>raw_answer := None\<rparr>])\<rparr>))"
proof -
  note T = QuizQuestion_answers_shape[OF validate_union_sound]
  have none: "validate_union (Raw_list [ex_voting_item\<lparr>raw_answer := None\<rparr>]) = None"
    by (simp add: ex_voting_item_def validate_union_def to_list_def to_ABCD_def to_Text_def
        to_Voting_def)
  have bad: "\<not> shape_matches ABCD (QuizQuestion.answers ex_mixed_question)"
    by (simp add: ex_mixed_question_def is_list_of_def is_ABCD_def)
  from T[of ex_abcd_kwargs ex_abcd_question ABCD] ex_abcd_accepted
  have 1: "QuizQuestion.type ex_abcd_question = Some ABCD"
    "shape_matches ABCD (QuizQuestion.answers ex_abcd_question)"
    by (simp_all add: ex_abcd_question_def)
  from T[of ex_mixed_kwargs ex_mixed_question VOTING] ex_mixed_accepted
  have 2: "QuizQuestion.type ex_mixed_question = Some VOTING"
    "shape_matches VOTING (QuizQuestion.answers ex_mixed_question)"
    by (simp_all add: ex_mixed_question_def)
  from T[of "ex_mixed_kwargs\<lparr>kw_type := Some (Some ABCD)\<rparr>" _ ABCD
      "Raw_list [ex_voting_item, ex_abcd_item]" "QuizQuestion.answers ex_mixed_question"]
    ex_mixed_coerced bad
  have 3: "isl (QuizQuestion_init validate_union (ex_mixed_kwargs\<lparr>kw_type := Some (Some ABCD)\<rparr>))"
    by (simp add: ex_mixed_kwargs_def with_default_def)
  from T[of "ex_mixed_kwargs\<lparr>kw_answers := Some (Raw_list [ex_voting_item\<lparr>raw_answer := None\<rparr>])\<rparr>"
      _ _ "Raw_list [ex_voting_item\<lparr>raw_answer := None\<rparr>]"] none
  have 4: "isl (QuizQuestion_init validate_union
          (ex_mixed_kwargs\<lparr>kw_answers := Some (Raw_list [ex_voting_item\<lparr>raw_answer := None\<rparr>])\<rparr>))"
    by simp
  from validate_union_sound ex_abcd_accepted ex_mixed_accepted ex_mixed_coerced none bad 1 2 3 4
  show ?thesis by blast
qed

text \<open>
  Claim C9. With a type tag among ABCD, VOTING, TEXT, ORDER, SLIDE and CHECK, the
  validator reaches \<^verbatim>\<open>v[0]\<close> on an empty answers list and raises \<open>IndexError\<close>;
  the constructor does not turn it into a \<open>ValidationError\<close>.
\<close>

theorem empty_answers_IndexError:
  "t \<in> {ABCD, VOTING, TEXT, ORDER, SLIDE, CHECK} \<Longrightarrow>
     answers_not_none_if_abcd_type (Answers_list []) [''type'' \<mapsto> Some t] = Inl IndexError \<and>
     (with_default (Some ABCD) (kw_type kw) = Some t \<and> kw_answers kw = Some raw
        \<and> validate_field raw = Some (Answers_list [])
        \<longrightarrow> QuizQuestion_init validate_field kw = Inl IndexError)"
  by (auto simp: answers_not_none_if_abcd_type_def raise_if_def py_and_def type_v0_ne_def
       QuizQuestion_init_def validate_answers_def Let_def)

theorem empty_answers_IndexError_witness:
  "ABCD \<in> {ABCD, VOTING, TEXT, ORDER, SLIDE, CHECK} \<and>
   answers_not_none_if_abcd_type (Answers_list []) [''type'' \<mapsto> Some ABCD] = Inl IndexError \<and>
   validate_union (Raw_list []) = Some (Answers_list []) \<and>
   QuizQuestion_init validate_union (ex_abcd_kwargs\<lparr>kw_answers := Some (Raw_list [])\<rparr>)
     = Inl IndexError"
proof -
  have e: "validate_union (Raw_list []) = Some (Answers_list [])"
    by (simp add: validate_union_def to_list_def)
  from empty_answers_IndexError[of ABCD "ex_abcd_kwargs\<lparr>kw_answers := Some (Raw_list [])\<rparr>"
      "Raw_list []" validate_union] e
  show ?thesis by (simp add: ex_abcd_kwargs_def with_default_def)
qed

text \<open>The checks for ORDER and for VOTING both look at the class of the first item.\<close>

lemma voting_check:
  "t = ORDER \<or> t = VOTING \<Longrightarrow>
   (\<exists>v'. answers_not_none_if_abcd_type v [''type'' \<mapsto> Some t] = Inr v')
    = (\<exists>a. getitem0 v = Inr (Elem_item (Item_Voting a)))"
  apply (cases "getitem0 v")
  subgoal by (auto simp: answers_not_none_if_abcd_type_def raise_if_def py_and_def type_v0_ne_def)
  subgoal for x
    apply (cases x)
    subgoal for i by (cases i) (auto simp: answers_not_none_if_abcd_type_def raise_if_def py_and_def type_v0_ne_def)
    subgoal by (auto simp: answers_not_none_if_abcd_type_def raise_if_def py_and_def type_v0_ne_def)
    done
  done

text \<open>
  Claim C10. For every answers payload the validator succeeds with the tag ORDER
  exactly when it succeeds with the tag VOTING, namely when the first element of the
  payload is a \<open>VotingQuizAnswer\<close>; so do the constructors.
\<close>

theorem ORDER_check_is_VOTING_check:
  "((\<exists>v'. answers_not_none_if_abcd_type v [''type'' \<mapsto> Some ORDER] = Inr v')
      = (\<exists>v'. answers_not_none_if_abcd_type v [''type'' \<mapsto> Some VOTING] = Inr v')) \<and>
   ((\<exists>v'. answers_not_none_if_abcd_type v [''type'' \<mapsto> Some ORDER] = Inr v')
      = (\<exists>a. getitem0 v = Inr (Elem_item (Item_Voting a)))) \<and>
   ((\<exists>q. QuizQuestion_init validate_field (kw\<lparr>kw_type := Some (Some ORDER)\<rparr>) = Inr q)
      = (\<exists>q. QuizQuestion_init validate_field (kw\<lparr>kw_type := Some (Some VOTING)\<rparr>) = Inr q))"
proof -
  have v: "\<And>t. t = ORDER \<or> t = VOTING \<Longrightarrow>
     (\<exists>q. QuizQuestion_init validate_field (kw\<lparr>kw_type := Some (Some t)\<rparr>) = Inr q)
     = (kw_question kw \<noteq> None \<and> kw_time kw \<noteq> None \<and>
        (\<exists>raw v. kw_answers kw = Some raw \<and> validate_field raw = Some v \<and>
           (\<exists>a. getitem0 v = Inr (Elem_item (Item_Voting a)))))"
    subgoal for t
      apply (cases "kw_answers kw")
       apply (simp add: QuizQuestion_init_def validate_answers_def Let_def with_default_def required_def)
      subgoal for raw
        apply (cases "validate_field raw")
         apply (simp add: QuizQuestion_init_def validate_answers_def Let_def with_default_def required_def)
        subgoal for v
          using voting_check[of t v]
          apply (cases "answers_not_none_if_abcd_type v [''type'' \<mapsto> Some t]")
          by (auto simp: QuizQuestion_init_def validate_answers_def Let_def with_default_def required_def
            split: option.splits error.splits)
        done
      done
    done
  show ?thesis using voting_check[of ORDER v] voting_check[of VOTING v] v[of ORDER] v[of VOTING]
    by simp
qed

section \<open>The type tag of a question\<close>

text \<open>
  Counterexample to claim C6: the constructor accepts \<^verbatim>\<open>type=None\<close>, and the question
  it returns carries none of the seven tags.
\<close>

theorem QuizQuestion_type_None_accepted:
  "QuizQuestion_init validate_union ex_untyped_kwargs = Inr ex_untyped_question \<and>
   QuizQuestion.type ex_untyped_question = None \<and>
   QuizQuestion.type ex_untyped_question
     \<notin> {Some ABCD, Some RANGE, Some VOTING, Some TEXT, Some ORDER, Some CHECK, Some SLIDE}"
  by (simp add: ex_untyped_kwargs_def ex_untyped_question_def QuizQuestion_init_def
      validate_answers_def validate_union_def answers_not_none_if_abcd_type_def raise_if_def
      py_and_def with_default_def required_def Let_def)

text \<open>The type of an accepted question is the one given, or the default.\<close>

lemma init_type:
  "QuizQuestion_init validate_field kw = Inr q \<Longrightarrow> QuizQuestion.type q = with_default (Some ABCD) (kw_type kw)"
  by (auto simp: QuizQuestion_init_def Let_def split: sum.splits if_splits prod.splits)

text \<open>
  Claim C6, amended. The type of an accepted question is \<^verbatim>\<open>None\<close> or one of the seven
  values ABCD, RANGE, VOTING, SLIDE, TEXT, ORDER, CHECK: it is the value given to the
  constructor, \<^verbatim>\<open>None\<close> included, and ABCD when none is given.
\<close>

theorem QuizQuestion_type_tag:
  assumes "QuizQuestion_init validate_field kw = Inr q"
  shows "QuizQuestion.type q = with_default (Some ABCD) (kw_type kw) \<and>
         QuizQuestion.type q
           \<in> {None, Some ABCD, Some RANGE, Some VOTING, Some SLIDE, Some TEXT, Some ORDER, Some CHECK}"
proof
  show "QuizQuestion.type q = with_default (Some ABCD) (kw_type kw)"
    using assms by (rule init_type)
  show "QuizQuestion.type q
           \<in> {None, Some ABCD, Some RANGE, Some VOTING, Some SLIDE, Some TEXT, Some ORDER, Some CHECK}"
  proof (cases "QuizQuestion.type q")
    case None
    then show ?thesis by simp
  next
    case (Some t)
    then show ?thesis by (cases t) simp_all
  qed
qed

theorem QuizQuestion_type_tag_witness:
  "QuizQuestion_init validate_union ex_abcd_kwargs = Inr ex_abcd_question \<and>
   QuizQuestion.type ex_abcd_question = Some ABCD \<and>
   QuizQuestion_init validate_union (ex_abcd_kwargs\<lparr>kw_type := None\<rparr>) = Inr ex_abcd_question \<and>
   QuizQuestion.type ex_abcd_question = with_default (Some ABCD) None"
proof -
  have d: "QuizQuestion_init validate_union (ex_abcd_kwargs\<lparr>kw_type := None\<rparr>) = Inr ex_abcd_question"
    by (simp add: ex_abcd_kwargs_def ex_abcd_question_def ex_abcd_answers_def ex_abcd_item_def
        QuizQuestion_init_def validate_answers_def validate_union_def to_list_def to_ABCD_def
        answers_not_none_if_abcd_type_def raise_if_def py_and_def type_v0_ne_def
        with_default_def required_def Let_def)
  show ?thesis
    using ex_abcd_accepted d
      QuizQuestion_type_tag[of validate_union "ex_abcd_kwargs\<lparr>kw_type := None\<rparr>" ex_abcd_question]
    by (simp add: ex_abcd_question_def)
qed

section \<open>A game created with its defaults\<close>

text \<open>The fields with defaults of an accepted \<open>PlayGame\<close>.\<close>

lemma PlayGame_init_Inr:
  "PlayGame_init kw = Inr g \<Longrightarrow>
     PlayGame.started g = with_default False (pg_started kw) \<and>
     PlayGame.current_question g = with_default (- 1) (pg_current_question kw) \<and>
     PlayGame.question_show g = with_default False (pg_question_show kw)"
  by (auto simp: PlayGame_init_def Let_def split: if_splits)

text \<open>
  Claim C3. A \<open>PlayGame\<close> created without values for \<^verbatim>\<open>started\<close>,
  \<^verbatim>\<open>current_question\<close> and \<^verbatim>\<open>question_show\<close> is in lobby state: its current
  question is -1, it is not started and its question is not shown.
\<close>

theorem PlayGame_lobby_defaults:
  assumes "PlayGame_init kw = Inr g"
    and "pg_started kw = None" and "pg_current_question kw = None"
    and "pg_question_show kw = None"
  shows "PlayGame.current_question g = - 1 \<and> \<not> PlayGame.started g \<and> \<not> PlayGame.question_show g"
  using PlayGame_init_Inr[OF assms(1)] assms(2-4) by (simp add: with_default_def)

theorem PlayGame_lobby_defaults_witness:
  "(\<exists>g. PlayGame_init ex_playgame_kwargs = Inr g \<and>
        PlayGame.current_question g = - 1 \<and> \<not> PlayGame.started g \<and> \<not> PlayGame.question_show g) \<and>
   pg_started ex_playgame_kwargs = None \<and> pg_current_question ex_playgame_kwargs = None \<and>
   pg_question_show ex_playgame_kwargs = None"
proof -
  obtain g where g: "PlayGame_init ex_playgame_kwargs = Inr g"
    by (simp add: PlayGame_init_def ex_playgame_kwargs_def required_def Let_def)
  have n: "pg_started ex_playgame_kwargs = None" "pg_current_question ex_playgame_kwargs = None"
    "pg_question_show ex_playgame_kwargs = None"
    by (simp_all add: ex_playgame_kwargs_def)
  from PlayGame_lobby_defaults[OF g n] g n show ?thesis by blast
qed

section \<open>The fields of a recorded answer\<close>

text \<open>
  Counterexample to claim C5: \<open>AnswerData\<close> accepts a negative \<^verbatim>\<open>time_taken\<close> and a
  negative \<^verbatim>\<open>score\<close>.
\<close>

theorem AnswerData_negative_accepted:
  "AnswerData_init ex_negative_kwargs = Inr ex_negative_answer \<and>
   AnswerData.time_taken ex_negative_answer < 0 \<and>
   AnswerData.score ex_negative_answer < 0"
  by (simp add: AnswerData_init_def ex_negative_kwargs_def ex_negative_answer_def required_def Let_def)

text \<open>
  Claim C5, amended. An \<open>AnswerData\<close> record holds the \<^verbatim>\<open>time_taken\<close> and the
  \<^verbatim>\<open>score\<close> it was given, whatever their values: the model declares no bound on
  either field.
\<close>

theorem AnswerData_stores_arguments:
  "AnswerData_init \<lparr>ad_username = Some u, ad_answer = Some x, ad_right = Some r,
                    ad_time_taken = Some t, ad_score = Some s\<rparr>
     = Inr \<lparr>AnswerData.username = u, AnswerData.answer = x, AnswerData.right = r,
            AnswerData.time_taken = t, AnswerData.score = s\<rparr>"
  by (simp add: AnswerData_init_def required_def Let_def)

section \<open>Defaults of the database models\<close>

text \<open>The defaults that loading the module stores, in terms of the world at that time.\<close>

lemma import_models_User:
  "User_id_default (fst (import_models w0))
     = set_version4 (int_from_bytes (map (urandom_stream w0) [urandom_pos w0 ..< urandom_pos w0 + 16]))"
  "User_created_at_default (fst (import_models w0)) = clock_stream w0 (clock_pos w0)"
  "User_backup_code_default (fst (import_models w0))
     = bytes_hex (map (urandom_stream w0) [urandom_pos w0 + 16 ..< urandom_pos w0 + 48])"
  by (simp_all add: import_models_def uuid4_def os_urandom_def datetime_now_def Let_def
      split_def add.commute)

lemma import_models_Quiz:
  "Quiz_id_default (fst (import_models w0))
     = set_version4 (int_from_bytes (map (urandom_stream w0) [urandom_pos w0 + 64 ..< urandom_pos w0 + 80]))"
  by (simp add: import_models_def uuid4_def os_urandom_def datetime_now_def Let_def
      split_def add.commute)

lemma import_models_GameResults:
  "GameResults_timestamp_default (fst (import_models w0)) = clock_stream w0 (clock_pos w0 + 5)"
proof -
  have e: "clock_pos w0 + 5 = Suc (Suc (Suc (Suc (Suc (clock_pos w0)))))"
    by simp
  show ?thesis
    unfolding e
    by (simp add: import_models_def uuid4_def os_urandom_def datetime_now_def Let_def split_def)
qed

text \<open>What the constructors put into the fields that have such a default.\<close>

lemma User_init_Inr:
  "User_init md kw = Inr a \<Longrightarrow>
     User.id_f a = with_default (User_id_default md) (u_id kw) \<and>
     User.created_at a = with_default (User_created_at_default md) (u_created_at kw) \<and>
     User.backup_code a = with_default (User_backup_code_default md) (u_backup_code kw)"
  by (auto simp: User_init_def Let_def split: if_splits)

lemma Quiz_init_Inr:
  "Quiz_init md re kw = Inr a \<Longrightarrow> Quiz.id_f a = with_default (Quiz_id_default md) (q_id kw)"
  by (auto simp: Quiz_init_def Let_def split: if_splits)

lemma GameResults_init_Inr:
  "GameResults_init md kw = Inr r \<Longrightarrow>
     GameResults.timestamp r = with_default (GameResults_timestamp_default md) (gr_timestamp kw) \<and>
     gr_title kw = Some (GameResults.title r) \<and>
     gr_description kw = Some (GameResults.description r) \<and>
     gr_questions kw = Some (GameResults.questions r)"
  by (auto simp: GameResults_init_def Let_def required_def split: if_splits option.splits)

text \<open>
  Claim C8. The defaults are computed once, when the module is loaded in the world
  \<open>w0\<close>, and not at construction: two \<open>User\<close> records created without an id (a
  creation time, a backup code) have the same id (creation time, backup code), the one
  drawn from \<open>w0\<close>; two \<open>Quiz\<close> records created without an id have the same id;
  two \<open>GameResults\<close> records created without a timestamp have the same timestamp.
\<close>

theorem defaults_fixed_at_import:
  "(User_init (fst (import_models w0)) ka = Inr a \<and> User_init (fst (import_models w0)) kb = Inr b \<longrightarrow>
      (u_id ka = None \<and> u_id kb = None \<longrightarrow>
         User.id_f a = User.id_f b \<and>
         User.id_f a = set_version4 (int_from_bytes
            (map (urandom_stream w0) [urandom_pos w0 ..< urandom_pos w0 + 16]))) \<and>
      (u_created_at ka = None \<and> u_created_at kb = None \<longrightarrow>
         User.created_at a = User.created_at b \<and>
         User.created_at a = clock_stream w0 (clock_pos w0)) \<and>
      (u_backup_code ka = None \<and> u_backup_code kb = None \<longrightarrow>
         User.backup_code a = User.backup_code b \<and>
         User.backup_code a = bytes_hex
            (map (urandom_stream w0) [urandom_pos w0 + 16 ..< urandom_pos w0 + 48]))) \<and>
   (Quiz_init (fst (import_models w0)) re qa = Inr x \<and>
    Quiz_init (fst (import_models w0)) re qb = Inr y \<and> q_id qa = None \<and> q_id qb = None \<longrightarrow>
      Quiz.id_f x = Quiz.id_f y \<and>
      Quiz.id_f x = set_version4 (int_from_bytes
         (map (urandom_stream w0) [urandom_pos w0 + 64 ..< urandom_pos w0 + 80]))) \<and>
   (GameResults_init (fst (import_models w0)) ga = Inr r \<and>
    GameResults_init (fst (import_models w0)) gb = Inr s \<and>
    gr_timestamp ga = None \<and> gr_timestamp gb = None \<longrightarrow>
      GameResults.timestamp r = GameResults.timestamp s \<and>
      GameResults.timestamp r = clock_stream w0 (clock_pos w0 + 5))"
proof (intro conjI impI)
  assume "User_init (fst (import_models w0)) ka = Inr a \<and> User_init (fst (import_models w0)) kb = Inr b"
  then have ab: "User_init (fst (import_models w0)) ka = Inr a" "User_init (fst (import_models w0)) kb = Inr b"
    by simp_all
  note A = User_init_Inr[OF ab(1)] and B = User_init_Inr[OF ab(2)]
  { assume "u_id ka = None \<and> u_id kb = None"
    with A B show "User.id_f a = User.id_f b"
      and "User.id_f a = set_version4 (int_from_bytes
            (map (urandom_stream w0) [urandom_pos w0 ..< urandom_pos w0 + 16]))"
      by (simp_all add: with_default_def import_models_User) }
  { assume "u_created_at ka = None \<and> u_created_at kb = None"
    with A B show "User.created_at a = User.created_at b"
      and "User.created_at a = clock_stream w0 (clock_pos w0)"
      by (simp_all add: with_default_def import_models_User) }
  { assume "u_backup_code ka = None \<and> u_backup_code kb = None"
    with A B show "User.backup_code a = User.backup_code b"
      and "User.backup_code a = bytes_hex
            (map (urandom_stream w0) [urandom_pos w0 + 16 ..< urandom_pos w0 + 48])"
      by (simp_all add: with_default_def import_models_User) }
next
  assume q: "Quiz_init (fst (import_models w0)) re qa = Inr x \<and>
    Quiz_init (fst (import_models w0)) re qb = Inr y \<and> q_id qa = None \<and> q_id qb = None"
  then have "Quiz.id_f x = Quiz_id_default (fst (import_models w0))"
    "Quiz.id_f y = Quiz_id_default (fst (import_models w0))"
    using Quiz_init_Inr[of "fst (import_models w0)" re qa x]
      Quiz_init_Inr[of "fst (import_models w0)" re qb y]
    by (simp_all add: with_default_def)
  then show "Quiz.id_f x = Quiz.id_f y"
    and "Quiz.id_f x = set_version4 (int_from_bytes
         (map (urandom_stream w0) [urandom_pos w0 + 64 ..< urandom_pos w0 + 80]))"
    by (simp_all add: import_models_Quiz)
next
  assume g: "GameResults_init (fst (import_models w0)) ga = Inr r \<and>
    GameResults_init (fst (import_models w0)) gb = Inr s \<and>
    gr_timestamp ga = None \<and> gr_timestamp gb = None"
  then have "GameResults.timestamp r = GameResults_timestamp_default (fst (import_models w0))"
    "GameResults.timestamp s = GameResults_timestamp_default (fst (import_models w0))"
    using GameResults_init_Inr[of "fst (import_models w0)" ga r]
      GameResults_init_Inr[of "fst (import_models w0)" gb s]
    by (simp_all add: with_default_def)
  then show "GameResults.timestamp r = GameResults.timestamp s"
    and "GameResults.timestamp r = clock_stream w0 (clock_pos w0 + 5)"
    by (simp_all add: import_models_GameResults)
qed

text \<open>The example arguments are accepted.\<close>

lemma ex_user_accepted:
  "\<exists>a. User_init md (ex_user_kwargs ''alice'') = Inr a"
  "\<exists>a. User_init md (ex_user_kwargs ''bob'') = Inr a"
  by (simp_all add: User_init_def ex_user_kwargs_def required_def max_length_def
      min_length_def minimum_def Let_def)

lemma ex_quiz_accepted:
  "\<exists>a. Quiz_init md re (ex_quiz_kwargs t) = Inr a"
  by (simp add: Quiz_init_def ex_quiz_kwargs_def required_def must_come_from_local_cdn_def Let_def)

lemma ex_results_accepted:
  "\<exists>a. GameResults_init md (ex_results_kwargs i) = Inr a"
  by (simp add: GameResults_init_def ex_results_kwargs_def required_def Let_def)

theorem defaults_fixed_at_import_witness:
  "(\<exists>a b. User_init (fst (import_models ex_world)) (ex_user_kwargs ''alice'') = Inr a \<and>
          User_init (fst (import_models ex_world)) (ex_user_kwargs ''bob'') = Inr b \<and>
          User.username a \<noteq> User.username b \<and>
          User.id_f a = User.id_f b \<and> User.created_at a = User.created_at b \<and>
          User.backup_code a = User.backup_code b \<and>
          User.created_at a = 1700000000000000) \<and>
   (\<exists>x y. Quiz_init (fst (import_models ex_world)) (\<lambda>_. True) (ex_quiz_kwargs ''one'') = Inr x \<and>
          Quiz_init (fst (import_models ex_world)) (\<lambda>_. True) (ex_quiz_kwargs ''two'') = Inr y \<and>
          Quiz.title x \<noteq> Quiz.title y \<and> Quiz.id_f x = Quiz.id_f y) \<and>
   (\<exists>r s. GameResults_init (fst (import_models ex_world)) (ex_results_kwargs 1) = Inr r \<and>
          GameResults_init (fst (import_models ex_world)) (ex_results_kwargs 2) = Inr s \<and>
          GameResults.id_f r \<noteq> GameResults.id_f s \<and>
          GameResults.timestamp r = GameResults.timestamp s \<and>
          GameResults.timestamp r = 1700000000001250)"
proof -
  let ?md = "fst (import_models ex_world)"
  obtain a b where ab: "User_init ?md (ex_user_kwargs ''alice'') = Inr a"
    "User_init ?md (ex_user_kwargs ''bob'') = Inr b"
    using ex_user_accepted by blast
  obtain x y where xy: "Quiz_init ?md (\<lambda>_. True) (ex_quiz_kwargs ''one'') = Inr x"
    "Quiz_init ?md (\<lambda>_. True) (ex_quiz_kwargs ''two'') = Inr y"
    using ex_quiz_accepted by blast
  obtain r s where rs: "GameResults_init ?md (ex_results_kwargs 1) = Inr r"
    "GameResults_init ?md (ex_results_kwargs 2) = Inr s"
    using ex_results_accepted by blast
  have names: "User.username a \<noteq> User.username b"
    using ab by (auto simp: User_init_def ex_user_kwargs_def Let_def split: if_splits)
  have titles: "Quiz.title x \<noteq> Quiz.title y"
    using xy by (auto simp: Quiz_init_def ex_quiz_kwargs_def Let_def split: if_splits)
  have ids: "GameResults.id_f r \<noteq> GameResults.id_f s"
    using rs by (auto simp: GameResults_init_def ex_results_kwargs_def Let_def split: if_splits)
  have none: "u_id (ex_user_kwargs n) = None" "u_created_at (ex_user_kwargs n) = None"
    "u_backup_code (ex_user_kwargs n) = None" "q_id (ex_quiz_kwargs t) = None"
    "gr_timestamp (ex_results_kwargs i) = None" for n t i
    by (simp_all add: ex_user_kwargs_def ex_quiz_kwargs_def ex_results_kwargs_def)
  have clock: "clock_stream ex_world (clock_pos ex_world) = 1700000000000000"
    "clock_stream ex_world (clock_pos ex_world + 5) = 1700000000001250"
    by (simp_all add: ex_world_def)
  from defaults_fixed_at_import[of ex_world "ex_user_kwargs ''alice''" a "ex_user_kwargs ''bob''" b
      "\<lambda>_. True" "ex_quiz_kwargs ''one''" x "ex_quiz_kwargs ''two''" y
      "ex_results_kwargs 1" r "ex_results_kwargs 2" s]
    ab xy rs names titles ids none clock
  show ?thesis by auto
qed

section \<open>The quiz data of a result\<close>




section \<open>The answer ledger of a live session\<close>

text \<open>No command changes the quiz of a session.\<close>

lemma step_quiz: "ls_quiz (step V S s c) = ls_quiz s"
  by (cases c) (auto simp: start_def advance_question_def hide_question_def submit_answer_def
      Let_def split: sum.splits if_splits option.splits)

lemma run_quiz: "ls_quiz (run V S s cs) = ls_quiz s"
  by (induction cs arbitrary: s) (simp_all add: step_quiz)

text \<open>An accepted submission: what was checked, and the entry that is appended.\<close>

lemma submit_answer_Inr:
  assumes "submit_answer V S s p q x t = Inr s'"
  shows "\<exists>qu. question_at s q = Some qu \<and> submissions_of s p q = [] \<and>
           s' = s\<lparr>ls_ledger := ls_ledger s @
                  [(q, \<lparr>AnswerData.username = p, AnswerData.answer = x,
                        AnswerData.right = V qu x, AnswerData.time_taken = t,
                        AnswerData.score = int (S qu (V qu x) t)\<rparr>)]\<rparr>"
  using assms
  by (auto simp: submit_answer_def Let_def split: if_splits option.splits)

text \<open>A command leaves the ledger as it is, or appends one accepted submission.\<close>

lemma step_ledger:
  "ls_ledger (step V S s c) = ls_ledger s \<or>
   (\<exists>p q x t qu. c = Submit_answer p q x t \<and> question_at s q = Some qu \<and>
      submissions_of s p q = [] \<and>
      ls_ledger (step V S s c) = ls_ledger s @
         [(q, \<lparr>AnswerData.username = p, AnswerData.answer = x,
               AnswerData.right = V qu x, AnswerData.time_taken = t,
               AnswerData.score = int (S qu (V qu x) t)\<rparr>)])"
proof (cases c)
  case (Submit_answer p q x t)
  show ?thesis
  proof (cases "submit_answer V S s p q x t")
    case (Inl r)
    with Submit_answer show ?thesis by simp
  next
    case (Inr s')
    from submit_answer_Inr[OF Inr] Submit_answer Inr show ?thesis by auto
  qed
qed (auto simp: start_def advance_question_def hide_question_def Let_def split: if_splits)

lemma submissions_of_append:
  "ls_ledger s' = ls_ledger s @ [(q', a)] \<Longrightarrow>
   submissions_of s' p q =
     submissions_of s p q @ (if q' = q \<and> AnswerData.username a = p then [a] else [])"
  by (simp add: submissions_of_def)

lemma submissions_of_cong: "ls_ledger s' = ls_ledger s \<Longrightarrow> submissions_of s' p q = submissions_of s p q"
  by (simp add: submissions_of_def)

text \<open>What is recorded for a player and a question stays as it is.\<close>

lemma step_keeps_recorded:
  assumes "submissions_of s p q \<noteq> []"
  shows "submissions_of (step V S s c) p q = submissions_of s p q"
  using step_ledger[of V S s c]
proof
  assume "ls_ledger (step V S s c) = ls_ledger s"
  then show ?thesis by (rule submissions_of_cong)
next
  assume "\<exists>p' q' x t qu. c = Submit_answer p' q' x t \<and> question_at s q' = Some qu \<and>
      submissions_of s p' q' = [] \<and>
      ls_ledger (step V S s c) = ls_ledger s @
         [(q', \<lparr>AnswerData.username = p', AnswerData.answer = x,
               AnswerData.right = V qu x, AnswerData.time_taken = t,
               AnswerData.score = int (S qu (V qu x) t)\<rparr>)]"
  then obtain p' q' a where e: "submissions_of s p' q' = []"
    "ls_ledger (step V S s c) = ls_ledger s @ [(q', a)]" "AnswerData.username a = p'"
    by auto
  from e(1) assms have "\<not> (q' = q \<and> p' = p)" by auto
  with submissions_of_append[OF e(2), of p q] e(3) show ?thesis by auto
qed

lemma run_keeps_recorded:
  "submissions_of s p q \<noteq> [] \<Longrightarrow> submissions_of (run V S s cs) p q = submissions_of s p q"
proof (induction cs arbitrary: s)
  case Nil
  then show ?case by simp
next
  case (Cons c cs)
  from step_keeps_recorded[OF Cons.prems, of V S c]
  have k: "submissions_of (step V S s c) p q = submissions_of s p q" .
  with Cons.prems have "submissions_of (step V S s c) p q \<noteq> []" by simp
  from Cons.IH[OF this] k show ?case by simp
qed

text \<open>At most one submission per player and question, command after command.\<close>

lemma step_at_most_one:
  assumes "length (submissions_of s p q) \<le> 1"
  shows "length (submissions_of (step V S s c) p q) \<le> 1"
proof (cases "submissions_of s p q = []")
  case False
  with step_keeps_recorded[OF False, of V S c] assms show ?thesis by simp
next
  case True
  from step_ledger[of V S s c] show ?thesis
  proof
    assume "ls_ledger (step V S s c) = ls_ledger s"
    from submissions_of_cong[OF this, of p q] assms show ?thesis by simp
  next
    assume "\<exists>p' q' x t qu. c = Submit_answer p' q' x t \<and> question_at s q' = Some qu \<and>
      submissions_of s p' q' = [] \<and>
      ls_ledger (step V S s c) = ls_ledger s @
         [(q', \<lparr>AnswerData.username = p', AnswerData.answer = x,
               AnswerData.right = V qu x, AnswerData.time_taken = t,
               AnswerData.score = int (S qu (V qu x) t)\<rparr>)]"
    then obtain q' a where e: "ls_ledger (step V S s c) = ls_ledger s @ [(q', a)]" by auto
    from submissions_of_append[OF e, of p q] True show ?thesis by simp
  qed
qed

lemma run_at_most_one:
  "length (submissions_of s p q) \<le> 1 \<Longrightarrow> length (submissions_of (run V S s cs) p q) \<le> 1"
proof (induction cs arbitrary: s)
  case Nil
  then show ?case by simp
next
  case (Cons c cs)
  from step_at_most_one[OF Cons.prems, of V S c]
  have "length (submissions_of (step V S s c) p q) \<le> 1" .
  from Cons.IH[OF this] show ?case by simp
qed

text \<open>A second submission is rejected.\<close>

lemma recorded_rejects:
  assumes "submissions_of s p q \<noteq> []"
  shows "\<exists>r. submit_answer V S s p q x t = Inl r"
proof (cases "submit_answer V S s p q x t")
  case (Inl r)
  then show ?thesis by blast
next
  case (Inr s')
  from submit_answer_Inr[OF Inr] assms show ?thesis by auto
qed

text \<open>
  Claim C2. In every session, after any commands, the ledger holds at most one
  submission for a player and a question index. Once one is recorded, a later
  submission by the same player for the same index is rejected and leaves the session
  as it is, and whatever commands follow, the recorded submission stays the only one.
\<close>

theorem ledger_at_most_one:
  "length (submissions_of (run V S (create qz host captcha) cmds) p q) \<le> 1 \<and>
   (submissions_of s p q \<noteq> [] \<longrightarrow>
      (\<exists>r. submit_answer V S s p q x t = Inl r) \<and>
      step V S s (Submit_answer p q x t) = s \<and>
      submissions_of (run V S s later) p q = submissions_of s p q)"
proof (intro conjI impI)
  have "length (submissions_of (create qz host captcha) p q) \<le> 1"
    by (simp add: submissions_of_def create_def)
  then show "length (submissions_of (run V S (create qz host captcha) cmds) p q) \<le> 1"
    by (rule run_at_most_one)
next
  assume a: "submissions_of s p q \<noteq> []"
  from recorded_rejects[OF a] show r: "\<exists>r. submit_answer V S s p q x t = Inl r" .
  then show "step V S s (Submit_answer p q x t) = s" by auto
  from a show "submissions_of (run V S s later) p q = submissions_of s p q"
    by (rule run_keeps_recorded)
qed

text \<open>The ledger of the example session.\<close>

lemma ex_run_ledger:
  "ls_ledger (run ex_validator ex_scorer (create ex_quiz 9 False) ex_commands)
     = [(0, ex_alice_answer)]"
  by (simp add: ex_commands_def create_def start_def advance_question_def in_progress_def
      submit_answer_def question_at_def submissions_of_def ex_quiz_def ex_abcd_question_def
      ex_validator_def ex_scorer_def ex_alice_answer_def Let_def)

theorem ledger_at_most_one_witness:
  "submissions_of (run ex_validator ex_scorer (create ex_quiz 9 False) ex_commands) ''alice'' 0
     = [ex_alice_answer] \<and>
   (\<exists>r. submit_answer ex_validator ex_scorer
          (run ex_validator ex_scorer (create ex_quiz 9 False) ex_commands)
          ''alice'' 0 ''5'' 2000 = Inl r) \<and>
   submissions_of
     (run ex_validator ex_scorer
        (run ex_validator ex_scorer (create ex_quiz 9 False) ex_commands)
        [Submit_answer ''alice'' 0 ''5'' 2000, Hide_question, Submit_answer ''alice'' 0 ''4'' 2500])
     ''alice'' 0 = [ex_alice_answer]"
proof -
  let ?s = "run ex_validator ex_scorer (create ex_quiz 9 False) ex_commands"
  have one: "submissions_of ?s ''alice'' 0 = [ex_alice_answer]"
    by (simp add: submissions_of_def ex_run_ledger ex_alice_answer_def)
  from ledger_at_most_one[of ex_validator ex_scorer ex_quiz 9 False ex_commands "''alice''" 0
      ?s "''5''" 2000
      "[Submit_answer ''alice'' 0 ''5'' 2000, Hide_question, Submit_answer ''alice'' 0 ''4'' 2500]"]
    one
  show ?thesis by (simp del: run.simps step.simps)
qed

section \<open>The totals of the final results\<close>

text \<open>A sum over a ledger, split by question index.\<close>

lemma sum_list_indicator:
  assumes "k < n"
  shows "sum_list (map (\<lambda>i. if k = i then (c::int) else 0) [0..<n]) = c"
proof -
  have "sum_list (map (\<lambda>i. if k = i then c else 0) [0..<n])
      = (\<Sum>i\<in>set [0..<n]. if k = i then c else 0)"
    by (rule sum_list_distinct_conv_sum_set) simp
  also have "\<dots> = c" using assms by simp
  finally show ?thesis .
qed

lemma sum_by_index:
  assumes "\<forall>e\<in>set L. 0 \<le> fst e \<and> fst e < int n"
  shows "sum_list (map (f :: int \<times> 'a \<Rightarrow> int) (filter P L))
       = sum_list (map (\<lambda>i. sum_list (map f (filter (\<lambda>e. fst e = int i \<and> P e) L))) [0..<n])"
  using assms
proof (induction L)
  case Nil
  then show ?case by simp
next
  case (Cons e L)
  then have IH: "sum_list (map f (filter P L))
       = sum_list (map (\<lambda>i. sum_list (map f (filter (\<lambda>e. fst e = int i \<and> P e) L))) [0..<n])"
    by simp
  from Cons.prems obtain k where k: "fst e = int k" "k < n"
    by (metis list.set_intros(1) nat_less_iff zero_le_imp_eq_int zless_nat_conj nat_int)
  have split: "sum_list (map f (filter (\<lambda>x. fst x = int i \<and> P x) (e # L)))
      = (if k = i then (if P e then f e else 0) else 0)
        + sum_list (map f (filter (\<lambda>x. fst x = int i \<and> P x) L))" for i
    using k by auto
  have "sum_list (map (\<lambda>i. sum_list (map f (filter (\<lambda>x. fst x = int i \<and> P x) (e # L)))) [0..<n])
      = sum_list (map (\<lambda>i. if k = i then (if P e then f e else 0) else 0) [0..<n])
        + sum_list (map (\<lambda>i. sum_list (map f (filter (\<lambda>x. fst x = int i \<and> P x) L))) [0..<n])"
    unfolding split by (rule sum_list_addf)
  also have "\<dots> = (if P e then f e else 0) + sum_list (map f (filter P L))"
    using sum_list_indicator[OF k(2)] IH by simp
  finally show ?case by simp
qed

text \<open>
  Every entry of the ledger belongs to a question of the quiz and has a score that is
  not negative.
\<close>

lemma step_ledger_ok:
  assumes "\<forall>e\<in>set (ls_ledger s). 0 \<le> fst e \<and> fst e < int (length (Quiz.questions (ls_quiz s)))
             \<and> 0 \<le> AnswerData.score (snd e)"
  shows "\<forall>e\<in>set (ls_ledger (step V S s c)). 0 \<le> fst e
             \<and> fst e < int (length (Quiz.questions (ls_quiz (step V S s c))))
             \<and> 0 \<le> AnswerData.score (snd e)"
  using step_ledger[of V S s c]
proof
  assume "ls_ledger (step V S s c) = ls_ledger s"
  with assms show ?thesis by (simp add: step_quiz)
next
  assume "\<exists>p q x t qu. c = Submit_answer p q x t \<and> question_at s q = Some qu \<and>
      submissions_of s p q = [] \<and>
      ls_ledger (step V S s c) = ls_ledger s @
         [(q, \<lparr>AnswerData.username = p, AnswerData.answer = x,
               AnswerData.right = V qu x, AnswerData.time_taken = t,
               AnswerData.score = int (S qu (V qu x) t)\<rparr>)]"
  then obtain q a qu where e: "question_at s q = Some qu"
    "ls_ledger (step V S s c) = ls_ledger s @ [(q, a)]" "0 \<le> AnswerData.score a"
    by auto
  from e(1) have "0 \<le> q \<and> q < int (length (Quiz.questions (ls_quiz s)))"
    by (simp add: question_at_def split: if_splits)
  with assms e(2,3) show ?thesis by (auto simp: step_quiz)
qed

lemma run_ledger_ok:
  "\<forall>e\<in>set (ls_ledger s). 0 \<le> fst e \<and> fst e < int (length (Quiz.questions (ls_quiz s)))
             \<and> 0 \<le> AnswerData.score (snd e) \<Longrightarrow>
   \<forall>e\<in>set (ls_ledger (run V S s cs)). 0 \<le> fst e
             \<and> fst e < int (length (Quiz.questions (ls_quiz s)))
             \<and> 0 \<le> AnswerData.score (snd e)"
proof (induction cs arbitrary: s)
  case Nil
  then show ?case by simp
next
  case (Cons c cs)
  from Cons.IH[OF step_ledger_ok[OF Cons.prems, of V S c]]
  show ?case by (simp add: step_quiz)
qed

text \<open>The score mapping has an entry for every player of the roster.\<close>

lemma map_of_roster:
  "pl \<in> set r \<Longrightarrow> map_of (map (\<lambda>pl. (GamePlayer.username pl, g (GamePlayer.username pl))) r)
      (GamePlayer.username pl) = Some (g (GamePlayer.username pl))"
  by (induction r) auto

lemma player_total_nonneg:
  "\<forall>e\<in>set (ls_ledger s). 0 \<le> AnswerData.score (snd e) \<Longrightarrow> 0 \<le> player_total s p"
  unfolding player_total_def by (rule sum_list_nonneg) auto

lemma player_total_by_question:
  assumes "\<forall>e\<in>set (ls_ledger s). 0 \<le> fst e \<and> fst e < int n"
  shows "player_total s p
     = sum_list (map (\<lambda>i. sum_list (map AnswerData.score (submissions_of s p (int i)))) [0..<n])"
proof -
  have "player_total s p = sum_list (map (\<lambda>i. sum_list (map (\<lambda>e. AnswerData.score (snd e))
        (filter (\<lambda>e. fst e = int i \<and> AnswerData.username (snd e) = p) (ls_ledger s)))) [0..<n])"
    unfolding player_total_def by (rule sum_by_index[OF assms])
  then show ?thesis by (simp add: submissions_of_def comp_def)
qed

text \<open>A decimal numeral reads back as the number it was written from.\<close>

declare str_nat.simps [simp del]

lemma less_10_cases:
  "(d::nat) < 10 \<Longrightarrow>
     d = 0 \<or> d = 1 \<or> d = 2 \<or> d = 3 \<or> d = 4 \<or> d = 5 \<or> d = 6 \<or> d = 7 \<or> d = 8 \<or> d = 9"
  by arith

lemma digit_val_digit_char: "d < 10 \<Longrightarrow> digit_val (digit_char d) = Some d"
  by (drule less_10_cases) (auto simp: digit_val_def digit_char_def)

lemma digit_char_not_minus: "digit_char d \<noteq> CHR ''-''"
proof -
  have "d mod 10 < 10" by simp
  from less_10_cases[OF this] show ?thesis
    by (auto simp: digit_char_def)
qed

lemma nat_of_digits_append:
  "nat_of_digits acc (xs @ [c]) =
     (case nat_of_digits acc xs of
        None \<Rightarrow> None
      | Some m \<Rightarrow> (case digit_val c of None \<Rightarrow> None | Some d \<Rightarrow> Some (10 * m + d)))"
  by (induction xs arbitrary: acc) (auto split: option.splits)

lemma nat_of_digits_str_nat: "nat_of_digits 0 (str_nat n) = Some n"
proof (induction n rule: str_nat.induct)
  case (1 n)
  show ?case
  proof (cases "n < 10")
    case True
    then show ?thesis
      by (subst str_nat.simps) (simp add: digit_val_digit_char)
  next
    case False
    with 1 have IH: "nat_of_digits 0 (str_nat (n div 10)) = Some (n div 10)" by simp
    have "n mod 10 < 10" by simp
    from False IH digit_val_digit_char[OF this] show ?thesis
      by (subst str_nat.simps) (simp add: nat_of_digits_append)
  qed
qed

lemma str_nat_head: "\<exists>c cs. str_nat n = c # cs \<and> c \<noteq> CHR ''-''"
proof (induction n rule: str_nat.induct)
  case (1 n)
  show ?case
  proof (cases "n < 10")
    case True
    then show ?thesis
      by (subst str_nat.simps) (simp add: digit_char_not_minus)
  next
    case False
    with 1 obtain c cs where "str_nat (n div 10) = c # cs" "c \<noteq> CHR ''-''" by auto
    with False show ?thesis
      by (subst str_nat.simps) simp
  qed
qed

lemma int_of_str_str_int: "0 \<le> n \<Longrightarrow> int_of_str (str_int n) = Some n"
proof -
  assume n: "0 \<le> n"
  obtain c cs where c: "str_nat (nat n) = c # cs" "c \<noteq> CHR ''-''"
    using str_nat_head by blast
  from nat_of_digits_str_nat[of "nat n"] c n show ?thesis
    by (simp add: int_of_str_def str_int_def)
qed

lemma str_int_0: "str_int 0 = ''0''"
  by (simp add: str_int_def str_nat.simps[of 0] digit_char_def)

text \<open>The score mapping that the finalizer hands to the constructor is the one of the record.\<close>

lemma finalize_Inr:
  assumes "finalize md rid now custom s = Inr r"
  shows "GameResults.player_scores r = Some
          (map_of (map (\<lambda>pl. (GamePlayer.username pl,
                               str_int (player_total s (GamePlayer.username pl))))
                     (ls_roster s)))"
  using assms
  by (auto simp: finalize_def GameResults_init_def Let_def split: if_splits)

lemma finalize_succeeds:
  "Quiz.description (ls_quiz s) \<noteq> None \<Longrightarrow> \<exists>r. finalize md rid now custom s = Inr r"
  by (auto simp: finalize_def GameResults_init_def required_def Let_def)

text \<open>
  Claim C4. In the \<open>GameResults\<close> record that the finalizer builds for a session,
  after any commands, the score mapping is present and every player of the roster has
  an entry in it. The entry is the decimal numeral of an integer that is not negative
  and that equals the sum, over the questions, of the scores recorded for the player;
  a player with no submission has the entry 0.
\<close>

theorem finalize_player_scores:
  assumes "s = run V S (create qz host captcha) cmds"
    and "pl \<in> set (ls_roster s)"
    and "finalize md rid now custom s = Inr r"
  shows "\<exists>m e n. GameResults.player_scores r = Some m \<and>
           m (GamePlayer.username pl) = Some e \<and>
           e = str_int n \<and> int_of_str e = Some n \<and> 0 \<le> n \<and>
           n = sum_list (map (\<lambda>i. sum_list (map AnswerData.score
                   (submissions_of s (GamePlayer.username pl) (int i))))
                 [0..<length (Quiz.questions qz)]) \<and>
           ((\<forall>q. submissions_of s (GamePlayer.username pl) q = []) \<longrightarrow> e = ''0'')"
proof -
  let ?p = "GamePlayer.username pl"
  let ?m = "map_of (map (\<lambda>pl. (GamePlayer.username pl,
                               str_int (player_total s (GamePlayer.username pl))))
                     (ls_roster s))"
  have init: "\<forall>e\<in>set (ls_ledger (create qz host captcha)). 0 \<le> fst e
      \<and> fst e < int (length (Quiz.questions (ls_quiz (create qz host captcha))))
      \<and> 0 \<le> AnswerData.score (snd e)"
    by (simp add: create_def)
  have q: "ls_quiz (create qz host captcha) = qz" by (simp add: create_def)
  from run_ledger_ok[OF init, of V S cmds] assms(1) q
  have ok: "\<forall>e\<in>set (ls_ledger s). 0 \<le> fst e \<and> fst e < int (length (Quiz.questions qz))
      \<and> 0 \<le> AnswerData.score (snd e)"
    by simp
  have 0: "GameResults.player_scores r = Some ?m"
    using assms(3) by (rule finalize_Inr)
  have 1: "?m ?p = Some (str_int (player_total s ?p))"
    using map_of_roster[OF assms(2), of "\<lambda>u. str_int (player_total s u)"] by simp
  have 2: "0 \<le> player_total s ?p" using ok by (intro player_total_nonneg) simp
  have 3: "player_total s ?p = sum_list (map (\<lambda>i. sum_list (map AnswerData.score
                   (submissions_of s ?p (int i)))) [0..<length (Quiz.questions qz)])"
    using ok by (intro player_total_by_question) simp
  have 4: "(\<forall>q. submissions_of s ?p q = []) \<longrightarrow> str_int (player_total s ?p) = ''0''"
    by (simp add: 3 str_int_0)
  have 5: "int_of_str (str_int (player_total s ?p)) = Some (player_total s ?p)"
    using 2 by (rule int_of_str_str_int)
  from 0 1 2 3 4 5 show ?thesis by blast
qed

lemma ex_run_roster:
  "ls_roster (run ex_validator ex_scorer (create ex_quiz 9 False) ex_commands)
     = [\<lparr>GamePlayer.username = ''alice'', sid = Some ''s1''\<rparr>,
        \<lparr>GamePlayer.username = ''bob'', sid = Some ''s2''\<rparr>]"
  by (simp add: ex_commands_def create_def start_def advance_question_def in_progress_def
      submit_answer_def question_at_def submissions_of_def ex_quiz_def ex_abcd_question_def
      ex_validator_def ex_scorer_def Let_def)

lemma str_int_800: "str_int 800 = ''800''"
proof -
  have "str_nat 800 = str_nat 80 @ ''0''"
    by (subst str_nat.simps) (simp add: digit_char_def)
  also have "str_nat 80 = str_nat 8 @ ''0''"
    by (subst str_nat.simps) (simp add: digit_char_def)
  also have "str_nat 8 = ''8''"
    by (subst str_nat.simps) (simp add: digit_char_def)
  finally show ?thesis by (simp add: str_int_def)
qed

theorem finalize_player_scores_witness:
  "\<exists>r m. finalize (fst (import_models ex_world)) 5 0 None
            (run ex_validator ex_scorer (create ex_quiz 9 False) ex_commands) = Inr r \<and>
     \<lparr>GamePlayer.username = ''bob'', sid = Some ''s2''\<rparr>
        \<in> set (ls_roster (run ex_validator ex_scorer (create ex_quiz 9 False) ex_commands)) \<and>
     GameResults.player_scores r = Some m \<and>
     m ''bob'' = Some ''0'' \<and> int_of_str ''0'' = Some 0 \<and>
     m ''alice'' = Some ''800''"
proof -
  let ?s = "run ex_validator ex_scorer (create ex_quiz 9 False) ex_commands"
  let ?bob = "\<lparr>GamePlayer.username = ''bob'', sid = Some ''s2''\<rparr>"
  have d: "Quiz.description (ls_quiz ?s) \<noteq> None"
    by (simp add: run_quiz create_def ex_quiz_def)
  from finalize_succeeds[OF d] obtain r
    where r: "finalize (fst (import_models ex_world)) 5 0 None ?s = Inr r" by blast
  have bob: "?bob \<in> set (ls_roster ?s)" by (simp add: ex_run_roster)
  have none: "\<forall>q. submissions_of ?s ''bob'' q = []"
    by (simp add: submissions_of_def ex_run_ledger ex_alice_answer_def)
  from finalize_player_scores[OF refl bob r] none
  obtain m where m: "GameResults.player_scores r = Some m" "m ''bob'' = Some ''0''"
    "int_of_str ''0'' = Some 0"
    by (auto simp: str_int_0)
  from finalize_Inr[OF r] m(1)
  have a: "m ''alice'' = Some ''800''"
    by (simp add: ex_run_roster player_total_def ex_run_ledger ex_alice_answer_def str_int_800)
  from r bob m a show ?thesis by blast
qed

end
